theory Spec2Isabelle
  imports Complex_Main
begin

section \<open>JavaScript strings\<close>

text \<open>
  A JavaScript string is modelled as an Isabelle \<open>string\<close>: the list of the bytes of its
  UTF-8 encoding. Every literal the tools compare with is ASCII, and an ASCII pattern
  occurs in the bytes exactly where it occurs in the code units, so \<open>endsWith\<close>,
  \<open>replace\<close> and the path functions below read the same on both.
\<close>

definition endsWith :: "string \<Rightarrow> string \<Rightarrow> bool" where
  \<comment> \<open>\<^verbatim>\<open>s.endsWith(suf)\<close>\<close>
  "endsWith s suf \<longleftrightarrow> length suf \<le> length s \<and> drop (length s - length suf) s = suf"

fun replace :: "string \<Rightarrow> string \<Rightarrow> string \<Rightarrow> string" where
  \<comment> \<open>\<^verbatim>\<open>s.replace(pat, rep)\<close> for a string pattern and a replacement without \<^verbatim>\<open>$\<close>:
      the first occurrence of \<open>pat\<close>, scanning from the left, is replaced, the rest of
      \<open>s\<close> is kept; without an occurrence \<open>s\<close> is returned.\<close>
  "replace [] pat rep = (if pat = [] then rep else [])"
| "replace (c # s) pat rep =
     (if take (length pat) (c # s) = pat then rep @ drop (length pat) (c # s)
      else c # replace s pat rep)"

definition toLowerCase_char :: "char \<Rightarrow> char" where
  "toLowerCase_char c =
     (case map_of (zip ''ABCDEFGHIJKLMNOPQRSTUVWXYZ'' ''abcdefghijklmnopqrstuvwxyz'') c of
        Some l \<Rightarrow> l
      | None \<Rightarrow> c)"

definition toLowerCase :: "string \<Rightarrow> string" where
  \<comment> \<open>\<^verbatim>\<open>s.toLowerCase()\<close> on the ASCII letters; bytes of other characters are kept,
      where JavaScript applies the Unicode case mapping. The two agree on every comparison
      with the extensions written in the source (no other character is lower-cased to a
      letter of theirs); they can differ in the scanner on a name or a caller's extension
      with capital letters outside ASCII.\<close>
  "toLowerCase s = map toLowerCase_char s"

definition join_with :: "string \<Rightarrow> string list \<Rightarrow> string" where
  \<comment> \<open>\<^verbatim>\<open>xs.join(sep)\<close>\<close>
  "join_with sep xs = (case xs of [] \<Rightarrow> [] | x # r \<Rightarrow> foldl (\<lambda>acc y. acc @ sep @ y) x r)"

definition digit_chars :: string where
  "digit_chars = ''0123456789''"

definition digit_value :: "char \<Rightarrow> nat" where
  "digit_value c = (case map_of (zip digit_chars [0 ..< 10]) c of Some d \<Rightarrow> d | None \<Rightarrow> 0)"

definition isDigit :: "char \<Rightarrow> bool" where
  "isDigit c \<longleftrightarrow> c \<in> set digit_chars"

definition white_space :: "string list" where
  \<comment> \<open>The UTF-8 encodings of the characters \<^verbatim>\<open>parseInt\<close> skips (WhiteSpace and
      LineTerminator of ECMAScript): TAB, LF, VT, FF, CR, SP, U+00A0, U+1680,
      U+2000 to U+200A, U+2028, U+2029, U+202F, U+205F, U+3000, U+FEFF.\<close>
  "white_space =
     [[CHR 0x09], [CHR 0x0A], [CHR 0x0B], [CHR 0x0C], [CHR 0x0D], [CHR 0x20],
      [CHR 0xC2, CHR 0xA0], [CHR 0xE1, CHR 0x9A, CHR 0x80],
      [CHR 0xE2, CHR 0x80, CHR 0x80], [CHR 0xE2, CHR 0x80, CHR 0x81],
      [CHR 0xE2, CHR 0x80, CHR 0x82], [CHR 0xE2, CHR 0x80, CHR 0x83],
      [CHR 0xE2, CHR 0x80, CHR 0x84], [CHR 0xE2, CHR 0x80, CHR 0x85],
      [CHR 0xE2, CHR 0x80, CHR 0x86], [CHR 0xE2, CHR 0x80, CHR 0x87],
      [CHR 0xE2, CHR 0x80, CHR 0x88], [CHR 0xE2, CHR 0x80, CHR 0x89],
      [CHR 0xE2, CHR 0x80, CHR 0x8A], [CHR 0xE2, CHR 0x80, CHR 0xA8],
      [CHR 0xE2, CHR 0x80, CHR 0xA9], [CHR 0xE2, CHR 0x80, CHR 0xAF],
      [CHR 0xE2, CHR 0x81, CHR 0x9F], [CHR 0xE3, CHR 0x80, CHR 0x80],
      [CHR 0xEF, CHR 0xBB, CHR 0xBF]]"

definition leading_space :: "string \<Rightarrow> nat" where
  \<comment> \<open>The number of bytes of the white-space character \<open>s\<close> starts with, 0 if none.\<close>
  "leading_space s =
     (case find (\<lambda>w. take (length w) s = w) white_space of
        Some w \<Rightarrow> length w
      | None \<Rightarrow> 0)"

function trimStart :: "string \<Rightarrow> string" where
  "trimStart s = (if leading_space s = 0 then s else trimStart (drop (leading_space s) s))"
  by pat_completeness auto
termination
proof (relation "measure length")
  fix s :: string
  assume "leading_space s \<noteq> 0"
  moreover have "leading_space [] = 0"
    by (simp add: leading_space_def white_space_def)
  ultimately have "s \<noteq> []" by auto
  with \<open>leading_space s \<noteq> 0\<close> show "(drop (leading_space s) s, s) \<in> measure length"
    by simp
qed simp

definition parseInt :: "string \<Rightarrow> int option" where
  \<comment> \<open>\<^verbatim>\<open>parseInt(s, 10)\<close>; \<open>None\<close> is NaN. White space is skipped, one sign is read,
      then the longest run of decimal digits; what follows the digits is ignored.
      The source compares the result with 1 and with an array length only; there the
      rounding of a long digit string to a double makes no difference, so the exact
      integer stands for it.\<close>
  "parseInt s =
     (let t = trimStart s;
          neg = (take 1 t = ''-'');
          u = (if take 1 t = ''-'' \<or> take 1 t = ''+'' then drop 1 t else t);
          ds = takeWhile isDigit u
      in if ds = [] then None
         else Some ((if neg then - 1 else 1) * int (foldl (\<lambda>a c. 10 * a + digit_value c) 0 ds)))"

function toString_nat :: "nat \<Rightarrow> string" where
  \<comment> \<open>The decimal numeral a template literal prints for a natural number.\<close>
  "toString_nat n =
     (if n < 10 then [digit_chars ! n] else toString_nat (n div 10) @ [digit_chars ! (n mod 10)])"
  by pat_completeness auto
termination
  by (relation "measure id") auto

declare trimStart.simps [simp del] toString_nat.simps [simp del]

section \<open>Node's path module\<close>

text \<open>
  \<^verbatim>\<open>path.basename\<close> and \<^verbatim>\<open>path.extname\<close> in their POSIX flavour. Trailing slashes are
  ignored and the last component is taken; its extension runs from its last dot to its
  end, and is empty when it has no dot, when its only dot is its first character, and
  for the component \<^verbatim>\<open>..\<close>.
\<close>

definition basename :: "string \<Rightarrow> string" where
  "basename p =
     rev (takeWhile (\<lambda>c. c \<noteq> CHR ''/'') (dropWhile (\<lambda>c. c = CHR ''/'') (rev p)))"

definition extname :: "string \<Rightarrow> string" where
  "extname p =
     (let b = basename p;
          e = rev (takeWhile (\<lambda>c. c \<noteq> CHR ''.'') (rev b))
      in if CHR ''.'' \<notin> set b then []
         else if Suc (length e) = length b then []
         else if b = ''..'' then []
         else CHR ''.'' # e)"

section \<open>Export tools: the target path of \<^verbatim>\<open>export_geo_json\<close>\<close>

definition export_geo_json_filePath :: "string \<Rightarrow> string" where
  \<comment> \<open>\<^verbatim>\<open>const filePath = path.endsWith(".geo.json") ? path
        : path.endsWith(".json") ? path.replace(".json", ".geo.json") : `${path}.geo.json`\<close>\<close>
  "export_geo_json_filePath path =
     (if endsWith path ''.geo.json'' then path
      else if endsWith path ''.json'' then replace path ''.json'' ''.geo.json''
      else path @ ''.geo.json'')"

section \<open>JSON values and the reads the tools make on them\<close>

text \<open>
  What \<^verbatim>\<open>JSON.parse\<close> returns. A number is a double: a rational or an infinity (a long
  exponent overflows); \<^verbatim>\<open>NaN\<close> is never parsed. An object is the list of its own
  properties. A JavaScript value that may be \<^verbatim>\<open>undefined\<close> is a \<open>json option\<close>.
\<close>

datatype number = Finite rat | PosInfinity | NegInfinity

datatype json =
    JNull
  | JBool bool
  | JNumber number
  | JString string
  | JArray "json list"
  | JObject "(string \<times> json) list"

datatype error =
    Error string      \<comment> \<open>an \<^verbatim>\<open>Error\<close> with its message\<close>
  | TypeError string  \<comment> \<open>reading the named property of \<^verbatim>\<open>null\<close>\<close>
  | Thrown string     \<comment> \<open>a thrown value that is no \<^verbatim>\<open>Error\<close>, with its \<^verbatim>\<open>String()\<close> image\<close>

fun truthy :: "json option \<Rightarrow> bool" where
  "truthy None = False"
| "truthy (Some JNull) = False"
| "truthy (Some (JBool b)) = b"
| "truthy (Some (JNumber n)) = (n \<noteq> Finite 0)"
| "truthy (Some (JString s)) = (s \<noteq> [])"
| "truthy (Some (JArray xs)) = True"
| "truthy (Some (JObject kvs)) = True"

fun property :: "json \<Rightarrow> string \<Rightarrow> json option" where
  \<comment> \<open>\<^verbatim>\<open>v[k]\<close> for a value \<open>v\<close> other than \<^verbatim>\<open>null\<close> and one of the keys the tools read
      (\<^verbatim>\<open>meta\<close>, \<^verbatim>\<open>model_format\<close>, \<^verbatim>\<open>minecraft:geometry\<close>, \<^verbatim>\<open>format_version\<close>, \<^verbatim>\<open>elements\<close>,
      \<^verbatim>\<open>textures\<close>): no boolean, number, string or array has such a property.\<close>
  "property (JObject kvs) k = map_of kvs k"
| "property v k = None"

definition meta_model_format :: "json \<Rightarrow> json option" where
  \<comment> \<open>\<^verbatim>\<open>parsed.meta?.model_format\<close>, for \<open>parsed\<close> other than \<^verbatim>\<open>null\<close>\<close>
  "meta_model_format parsed =
     (case property parsed ''meta'' of
        None \<Rightarrow> None
      | Some JNull \<Rightarrow> None
      | Some m \<Rightarrow> property m ''model_format'')"

section \<open>The host: Blockbench globals, the file system, the library\<close>

datatype codec = Codecs_project | Codecs_bedrock | Codecs_java_block | Codecs_optifine_entity

record project =
  obj :: nat                  \<comment> \<open>the identity of the object, as \<^verbatim>\<open>===\<close> compares it\<close>
  name :: string
  uuid :: string
  format_id :: "string option"  \<comment> \<open>\<^verbatim>\<open>proj.format?.id\<close>, \<open>None\<close> when \<^verbatim>\<open>undefined\<close>\<close>

datatype entry =
    File string                          \<comment> \<open>\<^verbatim>\<open>isFile()\<close>\<close>
  | Directory string "error + entry list"  \<comment> \<open>\<^verbatim>\<open>isDirectory()\<close>, with what \<^verbatim>\<open>readdirSync\<close> gives for it\<close>
  | Special string                       \<comment> \<open>neither: a link, a socket, a device\<close>

text \<open>
  Everything the tools call and do not define, over a host state \<open>'w\<close>. A call that
  may change the host returns the new state beside its result; a call that may throw
  returns a sum. \<open>Formats\<close> is the property read \<^verbatim>\<open>Formats[v]\<close> for any value \<open>v\<close>, \<open>None\<close>
  when it is \<^verbatim>\<open>undefined\<close> or \<^verbatim>\<open>null\<close>.
\<close>

record ('w, 'f) host =
  existsSync :: "string \<Rightarrow> 'w \<Rightarrow> bool"
  statSync_isDirectory :: "string \<Rightarrow> 'w \<Rightarrow> error + bool"
  readdirSync :: "string \<Rightarrow> 'w \<Rightarrow> error + entry list"
  readFileSync :: "string \<Rightarrow> 'w \<Rightarrow> error + string"
  path_join :: "string \<Rightarrow> string \<Rightarrow> string"
  JSON_parse :: "string \<Rightarrow> json option"
  Formats :: "'w \<Rightarrow> json option \<Rightarrow> 'f option"
  Codecs_has_optifine_entity :: "'w \<Rightarrow> bool"
  newProject :: "'f option \<Rightarrow> 'w \<Rightarrow> (error + bool) \<times> 'w"
  codec_parse :: "codec \<Rightarrow> json \<Rightarrow> string \<Rightarrow> 'w \<Rightarrow> (error + unit) \<times> 'w"
  ModelProject_all :: "'w \<Rightarrow> project list option"
  Project :: "'w \<Rightarrow> project option"
  select :: "project \<Rightarrow> 'w \<Rightarrow> (error + unit) \<times> 'w"
  close :: "project \<Rightarrow> bool \<Rightarrow> 'w \<Rightarrow> (error + unit) \<times> 'w"

definition quote :: char where
  "quote = CHR 0x27"

definition newline :: char where
  "newline = CHR 0x0A"

fun message :: "error \<Rightarrow> string" where
  \<comment> \<open>\<^verbatim>\<open>err instanceof Error ? err.message : String(err)\<close>\<close>
  "message (Error m) = m"
| "message (TypeError k) =
     ''Cannot read properties of null (reading '' @ [quote] @ k @ [quote] @ '')''"
| "message (Thrown s) = s"

section \<open>Project tools: choosing the codec and the format\<close>

definition Formats_named :: "(json option \<Rightarrow> 'f option) \<Rightarrow> string \<Rightarrow> 'f option" where
  \<comment> \<open>\<^verbatim>\<open>Formats.free\<close>, \<^verbatim>\<open>Formats.bedrock\<close>, ...\<close>
  "Formats_named F k = F (Some (JString k))"

definition native_format :: "(json option \<Rightarrow> 'f option) \<Rightarrow> json \<Rightarrow> 'f option" where
  \<comment> \<open>\<^verbatim>\<open>Formats[parsed.meta?.model_format] ?? Formats.free\<close>\<close>
  "native_format F parsed =
     (case F (meta_model_format parsed) of
        Some f \<Rightarrow> Some f
      | None \<Rightarrow> Formats_named F ''free'')"

definition open_project_binding ::
  "(json option \<Rightarrow> 'f option) \<Rightarrow> bool \<Rightarrow> string \<Rightarrow> json \<Rightarrow> error + codec \<times> 'f option" where
  \<comment> \<open>Lines 63 and 74 to 111 of \<^verbatim>\<open>open_project\<close>. Every branch reads \<^verbatim>\<open>parsed.meta\<close> first,
      in the first condition or in the body under it, which throws on \<^verbatim>\<open>null\<close>.\<close>
  "open_project_binding F optifine path parsed =
     (let ext = toLowerCase (extname path) in
      if parsed = JNull then Inl (TypeError ''meta'')
      else if ext = ''.bbmodel'' \<or> truthy (meta_model_format parsed) then
        Inr (Codecs_project, native_format F parsed)
      else if ext = ''.geo.json'' \<or> truthy (property parsed ''minecraft:geometry'')
              \<or> truthy (property parsed ''format_version'') then
        Inr (Codecs_bedrock, Formats_named F ''bedrock'')
      else if ext = ''.json'' \<and> (truthy (property parsed ''elements'') \<or> truthy (property parsed ''textures'')) then
        Inr (Codecs_java_block, Formats_named F ''java_block'')
      else if ext = ''.jem'' \<or> ext = ''.jpm'' then
        (if optifine then Inr (Codecs_optifine_entity, Formats_named F ''optifine_entity'')
         else Inl (Error ''OptiFine codec is not available.''))
      else Inr (Codecs_project, Formats_named F ''free''))"

definition folder_binding ::
  "(json option \<Rightarrow> 'f option) \<Rightarrow> bool \<Rightarrow> string \<Rightarrow> json \<Rightarrow> error + (codec \<times> 'f option) option" where
  \<comment> \<open>Lines 200 and 212 to 250 of \<^verbatim>\<open>open_projects_from_folder\<close>. \<open>Inr None\<close>: the OptiFine
      codec is missing, which this tool records for the file instead of throwing.\<close>
  "folder_binding F optifine filePath parsed =
     (let ext = toLowerCase (extname filePath) in
      if parsed = JNull then Inl (TypeError ''meta'')
      else if endsWith filePath ''.bbmodel'' \<or> truthy (meta_model_format parsed) then
        Inr (Some (Codecs_project, native_format F parsed))
      else if endsWith filePath ''.geo.json'' \<or> truthy (property parsed ''minecraft:geometry'')
              \<or> truthy (property parsed ''format_version'') then
        Inr (Some (Codecs_bedrock, Formats_named F ''bedrock''))
      else if ext = ''.json'' \<and> (truthy (property parsed ''elements'') \<or> truthy (property parsed ''textures'')) then
        Inr (Some (Codecs_java_block, Formats_named F ''java_block''))
      else if ext = ''.jem'' \<or> ext = ''.jpm'' then
        (if optifine then Inr (Some (Codecs_optifine_entity, Formats_named F ''optifine_entity''))
         else Inr None)
      else Inr (Some (Codecs_project, Formats_named F ''free'')))"

definition optifine_rule_reached :: "string \<Rightarrow> json \<Rightarrow> bool" where
  \<comment> \<open>The input comes to the fourth condition of \<^verbatim>\<open>open_project\<close> and meets it\<close>
  "optifine_rule_reached path parsed \<longleftrightarrow>
     (let ext = toLowerCase (extname path) in
      (ext = ''.jem'' \<or> ext = ''.jpm'') \<and> \<not> truthy (meta_model_format parsed)
      \<and> \<not> truthy (property parsed ''minecraft:geometry'') \<and> \<not> truthy (property parsed ''format_version''))"


section \<open>Project tools: \<^verbatim>\<open>open_project\<close>\<close>

definition uuid_text :: "project option \<Rightarrow> string" where
  \<comment> \<open>\<^verbatim>\<open>${Project?.uuid}\<close>\<close>
  "uuid_text p = (case p of None \<Rightarrow> ''undefined'' | Some q \<Rightarrow> uuid q)"

definition open_project :: "('w, 'f) host \<Rightarrow> string \<Rightarrow> 'w \<Rightarrow> (error + string) \<times> 'w" where
  "open_project H path w =
     (if \<not> existsSync H path w then (Inl (Error (''File not found: '' @ path)), w)
      else case readFileSync H path w of
        Inl e \<Rightarrow> (Inl e, w)
      | Inr content \<Rightarrow>
          (case JSON_parse H content of
             None \<Rightarrow> (Inl (Error (''Failed to parse file as JSON: '' @ path)), w)
           | Some parsed \<Rightarrow>
               (case open_project_binding (Formats H w) (Codecs_has_optifine_entity H w) path parsed of
                  Inl e \<Rightarrow> (Inl e, w)
                | Inr (codec, format) \<Rightarrow>
                    (case newProject H format w of
                       (Inl e, w1) \<Rightarrow> (Inl e, w1)
                     | (Inr created, w1) \<Rightarrow>
                         (case codec_parse H codec parsed path w1 of
                            (Inl e, w2) \<Rightarrow> (Inl e, w2)
                          | (Inr u, w2) \<Rightarrow>
                              (Inr (''Opened project: '' @ path @ '' (UUID: ''
                                    @ uuid_text (Project H w2) @ '')''), w2))))))"

section \<open>Project tools: \<^verbatim>\<open>open_projects_from_folder\<close>\<close>

definition PROJECT_EXTENSIONS :: "string list" where
  "PROJECT_EXTENSIONS = [''.bbmodel'', ''.json'', ''.geo.json'', ''.mcmodel'', ''.jem'', ''.jpm'']"

definition wanted :: "string list \<Rightarrow> string \<Rightarrow> bool" where
  \<comment> \<open>The test \<^verbatim>\<open>scanDirectory\<close> makes on the name of a file, both of its branches\<close>
  "wanted allowedExtensions entry_name \<longleftrightarrow>
     (endsWith entry_name ''.geo.json'' \<and> ''.geo.json'' \<in> set allowedExtensions)
     \<or> toLowerCase (extname entry_name) \<in> set allowedExtensions"

text \<open>
  \<^verbatim>\<open>scanDirectory(dir)\<close> with the list \<^verbatim>\<open>projectFiles\<close> it pushes to passed through. Its first
  argument is what \<^verbatim>\<open>readdirSync(dir)\<close> gives; a listing that throws ends the scan.
\<close>

function (sequential) scanDirectory ::
    "(string \<Rightarrow> string \<Rightarrow> string) \<Rightarrow> bool \<Rightarrow> string list \<Rightarrow> string \<Rightarrow> error + entry list
      \<Rightarrow> string list \<Rightarrow> error + string list"
  and scanEntries ::
    "(string \<Rightarrow> string \<Rightarrow> string) \<Rightarrow> bool \<Rightarrow> string list \<Rightarrow> string \<Rightarrow> entry list
      \<Rightarrow> string list \<Rightarrow> error + string list"
  where
  "scanDirectory join recursive allowed dir (Inl e) projectFiles = Inl e"
| "scanDirectory join recursive allowed dir (Inr entries) projectFiles =
     scanEntries join recursive allowed dir entries projectFiles"
| "scanEntries join recursive allowed dir [] projectFiles = Inr projectFiles"
| "scanEntries join recursive allowed dir (Directory n listing # entries) projectFiles =
     (if recursive then
        (case scanDirectory join recursive allowed (join dir n) listing projectFiles of
           Inl e \<Rightarrow> Inl e
         | Inr projectFiles' \<Rightarrow> scanEntries join recursive allowed dir entries projectFiles')
      else scanEntries join recursive allowed dir entries projectFiles)"
| "scanEntries join recursive allowed dir (File n # entries) projectFiles =
     scanEntries join recursive allowed dir entries
       (if endsWith n ''.geo.json'' \<and> ''.geo.json'' \<in> set allowed then projectFiles @ [join dir n]
        else if toLowerCase (extname n) \<in> set allowed then projectFiles @ [join dir n]
        else projectFiles)"
| "scanEntries join recursive allowed dir (Special n # entries) projectFiles =
     scanEntries join recursive allowed dir entries projectFiles"
  by pat_completeness auto
termination
  by (relation "measure (\<lambda>x. case x of
          Inl (join, recursive, allowed, dir, listing, projectFiles) \<Rightarrow>
            (case listing of Inl e \<Rightarrow> 0 | Inr entries \<Rightarrow> 2 * size_list size entries + 1)
        | Inr (join, recursive, allowed, dir, entries, projectFiles) \<Rightarrow>
            2 * size_list size entries)")
    (auto split: sum.splits)

definition opening_error :: "string \<Rightarrow> error \<Rightarrow> string" where
  \<comment> \<open>The line the \<^verbatim>\<open>catch\<close> of the loop pushes\<close>
  "opening_error filePath e = ''Error opening '' @ filePath @ '': '' @ message e"

definition open_file :: "('w, 'f) host \<Rightarrow> string \<Rightarrow> 'w \<Rightarrow> (string + string) \<times> 'w" where
  \<comment> \<open>The body of the loop over \<^verbatim>\<open>projectFiles\<close> for one \<open>filePath\<close>: \<open>Inr\<close> the name it pushes to
      \<^verbatim>\<open>results\<close>, \<open>Inl\<close> the line it pushes to \<^verbatim>\<open>errors\<close>.\<close>
  "open_file H filePath w =
     (case readFileSync H filePath w of
        Inl e \<Rightarrow> (Inl (opening_error filePath e), w)
      | Inr content \<Rightarrow>
          (case JSON_parse H content of
             None \<Rightarrow> (Inl (''Failed to parse: '' @ filePath), w)
           | Some parsed \<Rightarrow>
               (case folder_binding (Formats H w) (Codecs_has_optifine_entity H w) filePath parsed of
                  Inl e \<Rightarrow> (Inl (opening_error filePath e), w)
                | Inr None \<Rightarrow> (Inl (''OptiFine codec not available for: '' @ filePath), w)
                | Inr (Some (codec, format)) \<Rightarrow>
                    (case newProject H format w of
                       (Inl e, w1) \<Rightarrow> (Inl (opening_error filePath e), w1)
                     | (Inr created, w1) \<Rightarrow>
                         (case codec_parse H codec parsed filePath w1 of
                            (Inl e, w2) \<Rightarrow> (Inl (opening_error filePath e), w2)
                          | (Inr u, w2) \<Rightarrow> (Inr (basename filePath), w2))))))"

fun open_files ::
  "('w, 'f) host \<Rightarrow> string list \<Rightarrow> string list \<times> string list \<times> 'w \<Rightarrow> string list \<times> string list \<times> 'w" where
  \<comment> \<open>\<^verbatim>\<open>for (const filePath of projectFiles)\<close>, on the lists \<^verbatim>\<open>results\<close> and \<^verbatim>\<open>errors\<close> and the host\<close>
  "open_files H [] (results, errors, w) = (results, errors, w)"
| "open_files H (filePath # projectFiles) (results, errors, w) =
     (case open_file H filePath w of
        (Inl line, w') \<Rightarrow> open_files H projectFiles (results, errors @ [line], w')
      | (Inr opened, w') \<Rightarrow> open_files H projectFiles (results @ [opened], errors, w'))"

definition bullets :: "string list \<Rightarrow> string" where
  \<comment> \<open>\<^verbatim>\<open>xs.map((f) => `  - ${f}`).join("\n")\<close>\<close>
  "bullets xs = join_with [newline] (map (\<lambda>f. ''  - '' @ f) xs)"

definition folder_report :: "string \<Rightarrow> string list \<Rightarrow> string list \<Rightarrow> string" where
  "folder_report folder results errors =
     ''Opened '' @ toString_nat (length results) @ '' project(s) from: '' @ folder @ [newline]
     @ (if length results > 0 then [newline] @ ''Opened files:'' @ [newline] @ bullets results else [])
     @ (if length errors > 0 then
          [newline, newline] @ ''Errors ('' @ toString_nat (length errors) @ ''):'' @ [newline]
          @ bullets errors
        else [])"

definition open_projects_from_folder ::
  "('w, 'f) host \<Rightarrow> string \<Rightarrow> bool \<Rightarrow> string list option \<Rightarrow> 'w \<Rightarrow> (error + string) \<times> 'w" where
  "open_projects_from_folder H folder recursive extensions w =
     (if \<not> existsSync H folder w then (Inl (Error (''Folder not found: '' @ folder)), w)
      else case statSync_isDirectory H folder w of
        Inl e \<Rightarrow> (Inl e, w)
      | Inr False \<Rightarrow> (Inl (Error (''Path is not a directory: '' @ folder)), w)
      | Inr True \<Rightarrow>
          (let allowedExtensions = (case extensions of None \<Rightarrow> PROJECT_EXTENSIONS | Some xs \<Rightarrow> xs) in
           case scanDirectory (path_join H) recursive allowedExtensions folder (readdirSync H folder w) [] of
             Inl e \<Rightarrow> (Inl e, w)
           | Inr projectFiles \<Rightarrow>
               if length projectFiles = 0 then (Inr (''No project files found in: '' @ folder), w)
               else (case open_files H projectFiles ([], [], w) of
                       (results, errors, w') \<Rightarrow> (Inr (folder_report folder results errors), w'))))"

section \<open>What a scan and a batch are expected to give\<close>

text \<open>
  The files of a listing: those lying in the directory itself, and those at any depth
  below it with the directory each lies in, depth first and in the order of the listings.
  \<open>readable\<close> holds when every directory at any depth can be listed. \<open>found\<close> keeps the
  files whose name passes the test of the scanner and gives their paths.
\<close>

fun file_names :: "entry list \<Rightarrow> string list" where
  "file_names [] = []"
| "file_names (File n # entries) = n # file_names entries"
| "file_names (Directory n listing # entries) = file_names entries"
| "file_names (Special n # entries) = file_names entries"

function (sequential) files_below ::
  "(string \<Rightarrow> string \<Rightarrow> string) \<Rightarrow> string \<Rightarrow> entry list \<Rightarrow> (string \<times> string) list" where
  "files_below join dir [] = []"
| "files_below join dir (File n # entries) = (dir, n) # files_below join dir entries"
| "files_below join dir (Directory n (Inr below) # entries) =
     files_below join (join dir n) below @ files_below join dir entries"
| "files_below join dir (Directory n (Inl e) # entries) = files_below join dir entries"
| "files_below join dir (Special n # entries) = files_below join dir entries"
  by pat_completeness auto
termination
  by (relation "measure (\<lambda>(join, dir, entries). size_list size entries)") auto

function (sequential) readable :: "entry list \<Rightarrow> bool" where
  "readable [] = True"
| "readable (Directory n (Inr below) # entries) = (readable below \<and> readable entries)"
| "readable (Directory n (Inl e) # entries) = False"
| "readable (File n # entries) = readable entries"
| "readable (Special n # entries) = readable entries"
  by pat_completeness auto
termination
  by (relation "measure (size_list size)") auto

definition found :: "(string \<Rightarrow> string \<Rightarrow> string) \<Rightarrow> string list \<Rightarrow> (string \<times> string) list \<Rightarrow> string list" where
  "found join allowed fs = map (\<lambda>(d, n). join d n) (filter (\<lambda>(d, n). wanted allowed n) fs)"

text \<open>A file under \<open>k\<close> nested directories named \<open>d\<close>, and the directory it ends up in.\<close>

fun buried :: "nat \<Rightarrow> string \<Rightarrow> string \<Rightarrow> entry" where
  "buried 0 d n = File n"
| "buried (Suc k) d n = Directory d (Inr [buried k d n])"

fun descend :: "(string \<Rightarrow> string \<Rightarrow> string) \<Rightarrow> nat \<Rightarrow> string \<Rightarrow> string \<Rightarrow> string" where
  "descend join 0 dir d = dir"
| "descend join (Suc k) dir d = descend join k (join dir d) d"

text \<open>
  The outcome of each file of a batch in turn, each on the host as the files before it
  left it, and what the two lists of the loop hold in the end.
\<close>

fun outcomes :: "('w, 'f) host \<Rightarrow> string list \<Rightarrow> 'w \<Rightarrow> (string + string) list" where
  "outcomes H [] w = []"
| "outcomes H (filePath # projectFiles) w =
     fst (open_file H filePath w) # outcomes H projectFiles (snd (open_file H filePath w))"

fun after_files :: "('w, 'f) host \<Rightarrow> string list \<Rightarrow> 'w \<Rightarrow> 'w" where
  "after_files H [] w = w"
| "after_files H (filePath # projectFiles) w = after_files H projectFiles (snd (open_file H filePath w))"

fun opened_of :: "(string + string) list \<Rightarrow> string list" where
  "opened_of [] = []"
| "opened_of (Inr opened # outs) = opened # opened_of outs"
| "opened_of (Inl line # outs) = opened_of outs"

fun failed_of :: "(string + string) list \<Rightarrow> string list" where
  "failed_of [] = []"
| "failed_of (Inr opened # outs) = failed_of outs"
| "failed_of (Inl line # outs) = line # failed_of outs"

definition names_file :: "string \<Rightarrow> string + string \<Rightarrow> bool" where
  "names_file filePath out \<longleftrightarrow>
     (case out of
        Inr opened \<Rightarrow> opened = basename filePath
      | Inl line \<Rightarrow>
          line = ''Failed to parse: '' @ filePath
          \<or> line = ''OptiFine codec not available for: '' @ filePath
          \<or> (\<exists>e. line = ''Error opening '' @ filePath @ '': '' @ message e))"

section \<open>Project tools: listing, switching and closing\<close>

definition or_Untitled :: "string \<Rightarrow> string" where
  \<comment> \<open>\<^verbatim>\<open>proj.name || "Untitled"\<close>\<close>
  "or_Untitled n = (if n = [] then ''Untitled'' else n)"

definition is_active :: "('w, 'f) host \<Rightarrow> 'w \<Rightarrow> project \<Rightarrow> bool" where
  \<comment> \<open>\<^verbatim>\<open>proj === Project\<close>\<close>
  "is_active H w proj = (case Project H w of None \<Rightarrow> False | Some p \<Rightarrow> obj p = obj proj)"

definition project_line :: "('w, 'f) host \<Rightarrow> 'w \<Rightarrow> nat \<Rightarrow> project \<Rightarrow> string" where
  \<comment> \<open>The callback of \<^verbatim>\<open>projects.map\<close> in \<^verbatim>\<open>list_open_projects\<close>; the arrow is U+2192.\<close>
  "project_line H w index proj =
     toString_nat (index + 1) @ ''. ''
     @ (if is_active H w proj then [CHR 0xE2, CHR 0x86, CHR 0x92] @ '' '' else ''  '')
     @ or_Untitled (name proj)
     @ '' (UUID: '' @ uuid proj @ '', Format: ''
     @ (case format_id proj of None \<Rightarrow> ''unknown'' | Some i \<Rightarrow> i) @ '')''"

definition project_lines :: "('w, 'f) host \<Rightarrow> 'w \<Rightarrow> project list \<Rightarrow> string list" where
  "project_lines H w projects = map (\<lambda>index. project_line H w index (projects ! index)) [0 ..< length projects]"

definition list_open_projects :: "('w, 'f) host \<Rightarrow> 'w \<Rightarrow> string" where
  "list_open_projects H w =
     (case ModelProject_all H w of
        None \<Rightarrow> ''No projects are currently open.''
      | Some projects \<Rightarrow>
          if length projects = 0 then ''No projects are currently open.''
          else ''# Open Projects ('' @ toString_nat (length projects) @ '')'' @ [newline, newline]
               @ join_with [newline] (project_lines H w projects))"

definition switch_target :: "project list \<Rightarrow> string \<Rightarrow> project option" where
  \<comment> \<open>Lines 327 to 336 of \<^verbatim>\<open>switch_project\<close>, for a list that is not empty\<close>
  "switch_target projects identifier =
     (case parseInt identifier of
        None \<Rightarrow> find (\<lambda>p. uuid p = identifier) projects
      | Some index \<Rightarrow>
          if index \<ge> 1 \<and> index \<le> int (length projects) then Some (projects ! nat (index - 1))
          else find (\<lambda>p. uuid p = identifier) projects)"

definition index_in_range :: "project list \<Rightarrow> string \<Rightarrow> bool" where
  \<comment> \<open>The test of line 331: \<^verbatim>\<open>!isNaN(index) && index >= 1 && index <= projects.length\<close>\<close>
  "index_in_range projects identifier \<longleftrightarrow>
     (case parseInt identifier of
        None \<Rightarrow> False
      | Some index \<Rightarrow> index \<ge> 1 \<and> index \<le> int (length projects))"

definition switch_project :: "('w, 'f) host \<Rightarrow> string \<Rightarrow> 'w \<Rightarrow> (error + string) \<times> 'w" where
  "switch_project H identifier w =
     (case ModelProject_all H w of
        None \<Rightarrow> (Inl (Error ''No projects are currently open.''), w)
      | Some projects \<Rightarrow>
          if length projects = 0 then (Inl (Error ''No projects are currently open.''), w)
          else (case switch_target projects identifier of
                  None \<Rightarrow>
                    (Inl (Error (''Project not found: '' @ identifier @ ''. Use '' @ [quote]
                           @ ''list_open_projects'' @ [quote] @ '' to see available projects.'')), w)
                | Some targetProject \<Rightarrow>
                    (case select H targetProject w of
                       (Inl e, w') \<Rightarrow> (Inl e, w')
                     | (Inr u, w') \<Rightarrow>
                         (Inr (''Switched to project: '' @ or_Untitled (name targetProject)
                               @ '' (UUID: '' @ uuid targetProject @ '')''), w'))))"

definition close_target :: "('w, 'f) host \<Rightarrow> 'w \<Rightarrow> project list \<Rightarrow> string option \<Rightarrow> error + project" where
  \<comment> \<open>Lines 379 to 391 of \<^verbatim>\<open>close_project\<close>; an absent or empty \<open>uuid\<close> is falsy\<close>
  "close_target H w projects uuid_arg =
     (case uuid_arg of
        Some u \<Rightarrow>
          if u \<noteq> [] then
            (case find (\<lambda>p. uuid p = u) projects of
               None \<Rightarrow> Inl (Error (''Project not found: '' @ u))
             | Some targetProject \<Rightarrow> Inr targetProject)
          else (case Project H w of
                  None \<Rightarrow> Inl (Error ''No active project to close.'')
                | Some targetProject \<Rightarrow> Inr targetProject)
      | None \<Rightarrow>
          (case Project H w of
             None \<Rightarrow> Inl (Error ''No active project to close.'')
           | Some targetProject \<Rightarrow> Inr targetProject))"

definition close_project ::
  "('w, 'f) host \<Rightarrow> string option \<Rightarrow> bool \<Rightarrow> 'w \<Rightarrow> (error + string) \<times> 'w" where
  "close_project H uuid_arg force w =
     (case ModelProject_all H w of
        None \<Rightarrow> (Inl (Error ''No projects are currently open.''), w)
      | Some projects \<Rightarrow>
          if length projects = 0 then (Inl (Error ''No projects are currently open.''), w)
          else (case close_target H w projects uuid_arg of
                  Inl e \<Rightarrow> (Inl e, w)
                | Inr targetProject \<Rightarrow>
                    (case close H targetProject force w of
                       (Inl e, w') \<Rightarrow> (Inl e, w')
                     | (Inr u, w') \<Rightarrow>
                         (Inr (''Closed project: '' @ or_Untitled (name targetProject)
                               @ '' (UUID: '' @ uuid targetProject @ '')''), w'))))"

section \<open>A small host for concrete checks\<close>

text \<open>
  A host state with a handful of files and open tabs, to run the tools on concrete inputs.
  Its parser knows three texts; every other text is invalid JSON.
\<close>

record world =
  files :: "(string \<times> string) list"
  folders :: "(string \<times> entry list) list"
  tabs :: "project list"
  current :: "nat option"
  fresh :: nat

definition sample_Formats :: "json option \<Rightarrow> string option" where
  "sample_Formats v =
     (case v of
        Some (JString k) \<Rightarrow>
          if k \<in> set [''free'', ''bedrock'', ''bedrock_block'', ''java_block'', ''optifine_entity'']
          then Some k else None
      | _ \<Rightarrow> None)"

definition sample_parse :: "string \<Rightarrow> json option" where
  "sample_parse text =
     map_of [(''{}'', JObject []), (''null'', JNull), (''[]'', JArray [])] text"

definition sample_newProject :: "string option \<Rightarrow> world \<Rightarrow> (error + bool) \<times> world" where
  "sample_newProject format w =
     (Inr True,
      w\<lparr>tabs := tabs w @ [\<lparr>obj = fresh w, name = [], uuid = ''uuid-'' @ toString_nat (fresh w),
                            format_id = format\<rparr>],
        current := Some (fresh w), fresh := Suc (fresh w)\<rparr>)"

definition slash_join :: "string \<Rightarrow> string \<Rightarrow> string" where
  "slash_join dir n = dir @ ''/'' @ n"

definition sample_host :: "(world, string) host" where
  "sample_host =
     \<lparr>existsSync = (\<lambda>p w. map_of (files w) p \<noteq> None \<or> map_of (folders w) p \<noteq> None),
      statSync_isDirectory = (\<lambda>p w. Inr (map_of (folders w) p \<noteq> None)),
      readdirSync = (\<lambda>p w. case map_of (folders w) p of None \<Rightarrow> Inl (Error ''ENOENT'') | Some es \<Rightarrow> Inr es),
      readFileSync = (\<lambda>p w. case map_of (files w) p of None \<Rightarrow> Inl (Error ''ENOENT'') | Some c \<Rightarrow> Inr c),
      path_join = slash_join,
      JSON_parse = sample_parse,
      Formats = (\<lambda>w. sample_Formats),
      Codecs_has_optifine_entity = (\<lambda>w. True),
      newProject = sample_newProject,
      codec_parse = (\<lambda>codec parsed path w. (Inr (), w)),
      ModelProject_all = (\<lambda>w. Some (tabs w)),
      Project = (\<lambda>w. find (\<lambda>p. Some (obj p) = current w) (tabs w)),
      select = (\<lambda>p w. (Inr (), w\<lparr>current := Some (obj p)\<rparr>)),
      close = (\<lambda>p force w. (Inr (), w\<lparr>tabs := filter (\<lambda>q. obj q \<noteq> obj p) (tabs w), current := None\<rparr>))\<rparr>"

definition two_tabs :: world where
  "two_tabs =
     \<lparr>files = [], folders = [],
      tabs = [\<lparr>obj = 10, name = ''cube'', uuid = ''aaaa'', format_id = Some ''free''\<rparr>,
              \<lparr>obj = 11, name = [], uuid = ''bbbb'', format_id = None\<rparr>],
      current = Some 10, fresh = 12\<rparr>"

definition three_files :: world where
  "three_files =
     \<lparr>files = [(''models/a.json'', ''{}''), (''models/b.json'', ''{''), (''models/c.geo.json'', ''{}'')],
      folders = [(''models'', [File ''a.json'', File ''b.json'', File ''c.geo.json''])],
      tabs = [], current = None, fresh = 0\<rparr>"

text \<open>
  A host without the OptiFine codec whose Bedrock codec rejects every model, and a folder
  with an entity model, a geometry and a file holding \<^verbatim>\<open>null\<close>.
\<close>

definition failing_host :: "(world, string) host" where
  "failing_host =
     sample_host\<lparr>Codecs_has_optifine_entity := (\<lambda>w. False),
                 codec_parse := (\<lambda>codec parsed path w.
                    if codec = Codecs_bedrock then (Inl (Error ''bad geometry''), w) else (Inr (), w))\<rparr>"

definition entity_files :: world where
  "entity_files =
     \<lparr>files = [(''models/e.jem'', ''{}''), (''models/f.geo.json'', ''{}''), (''models/g.json'', ''null'')],
      folders = [(''models'', [File ''e.jem'', File ''f.geo.json'', File ''g.json''])],
      tabs = [], current = None, fresh = 0\<rparr>"

section \<open>Facts about the string and path functions\<close>

lemma endsWith_iff: "endsWith s suf \<longleftrightarrow> (\<exists>pre. s = pre @ suf)"
proof
  assume "endsWith s suf"
  then have "s = take (length s - length suf) s @ suf"
    by (metis append_take_drop_id endsWith_def)
  then show "\<exists>pre. s = pre @ suf" ..
next
  assume "\<exists>pre. s = pre @ suf"
  then show "endsWith s suf"
    by (auto simp: endsWith_def)
qed

lemma endsWith_append [simp]: "endsWith (pre @ suf) suf"
  by (auto simp: endsWith_iff)


text \<open>The examples of the documentation of Node.\<close>

lemma extname_examples:
  "extname ''index.html'' = ''.html''"
  "extname ''index.coffee.md'' = ''.md''"
  "extname ''index.'' = ''.''"
  "extname ''index'' = []"
  "extname ''.index'' = []"
  "extname ''.index.md'' = ''.md''"
  by (simp_all add: extname_def basename_def)

lemma basename_examples:
  "basename ''/foo/bar/baz/asdf/quux.html'' = ''quux.html''"
  "basename ''models/sub/'' = ''sub''"
  by (simp_all add: basename_def)



text \<open>A file name of at least one character before \<^verbatim>\<open>.json\<close> has the extension \<^verbatim>\<open>.json\<close>.\<close>

lemma extname_json:
  assumes "endsWith p (c # ''.json'')" "c \<noteq> CHR ''/''"
  shows "extname p = ''.json''"
proof -
  from assms(1) obtain pre where p: "p = pre @ c # ''.json''"
    by (auto simp: endsWith_iff)
  have b: "basename p = rev (takeWhile (\<lambda>c. c \<noteq> CHR ''/'') (rev pre)) @ c # ''.json''"
    using assms(2) by (simp add: p basename_def)
  show ?thesis
    by (simp add: extname_def b Let_def)
qed

lemma extname_geo_json: "endsWith p ''.geo.json'' \<Longrightarrow> extname p = ''.json''"
proof -
  assume "endsWith p ''.geo.json''"
  then obtain pre where "p = pre @ ''.geo.json''" by (auto simp: endsWith_iff)
  then have "p = (pre @ ''.ge'') @ CHR ''o'' # ''.json''" by simp
  then have "endsWith p (CHR ''o'' # ''.json'')" unfolding endsWith_iff by blast
  then show ?thesis by (rule extname_json) simp
qed

lemma toLowerCase_json [simp]: "toLowerCase ''.json'' = ''.json''"
  by (simp add: toLowerCase_def toLowerCase_char_def)

text \<open>A path that ends in \<^verbatim>\<open>.bbmodel\<close> has that extension or, when this is the whole name, none.\<close>

lemma extname_bbmodel:
  assumes "endsWith p ''.bbmodel''"
  shows "extname p = [] \<or> extname p = ''.bbmodel''"
proof -
  from assms obtain pre where p: "p = pre @ ''.bbmodel''"
    by (auto simp: endsWith_iff)
  have b: "basename p = rev (takeWhile (\<lambda>c. c \<noteq> CHR ''/'') (rev pre)) @ ''.bbmodel''"
    by (simp add: p basename_def)
  show ?thesis
    by (simp add: extname_def b Let_def)
qed

lemma toLowerCase_bbmodel: "toLowerCase ''.bbmodel'' = ''.bbmodel''"
  by (simp add: toLowerCase_def toLowerCase_char_def)

lemma not_bbmodel_of_json:
  assumes "toLowerCase (extname p) = ''.json''"
  shows "\<not> endsWith p ''.bbmodel''"
proof
  assume "endsWith p ''.bbmodel''"
  then have "extname p = [] \<or> extname p = ''.bbmodel''"
    by (rule extname_bbmodel)
  with assms show False
    by (auto simp: toLowerCase_def toLowerCase_char_def)
qed


section \<open>The target path of \<^verbatim>\<open>export_geo_json\<close>\<close>

text \<open>
  The three paths the specification lists are normalised as it says, and a path that
  does not end in \<^verbatim>\<open>.json\<close> always gets the suffix appended.
\<close>

lemma export_geo_json_filePath_examples:
  "export_geo_json_filePath ''out/model'' = ''out/model.geo.json''"
  "export_geo_json_filePath ''out/model.json'' = ''out/model.geo.json''"
  "export_geo_json_filePath ''out/model.geo.json'' = ''out/model.geo.json''"
  by (simp_all add: export_geo_json_filePath_def endsWith_def)

lemma export_geo_json_filePath_other:
  "\<not> endsWith path ''.json'' \<Longrightarrow> export_geo_json_filePath path = path @ ''.geo.json''"
  by (auto simp: export_geo_json_filePath_def endsWith_iff)

text \<open>
  C3. The claim: for every input path the file is written to a path ending in
  \<^verbatim>\<open>.geo.json\<close>, a final \<^verbatim>\<open>.json\<close> being replaced by it. The source replaces the first
  occurrence of \<^verbatim>\<open>.json\<close> in the path, not the final one: for a model inside a directory
  named \<^verbatim>\<open>out.json\<close> the directory name is rewritten and the target keeps its plain
  \<^verbatim>\<open>.json\<close> ending.
\<close>

theorem export_geo_json_filePath_first_occurrence:
  "export_geo_json_filePath ''out.json/model.json'' = ''out.geo.json/model.json'' \<and>
   \<not> endsWith (export_geo_json_filePath ''out.json/model.json'') ''.geo.json''"
  by (simp add: export_geo_json_filePath_def endsWith_def)

section \<open>The choice of codec and format\<close>

lemma ext_model_geo_json: "toLowerCase (extname ''model.geo.json'') = ''.json''"
  by (simp add: extname_geo_json endsWith_def)

text \<open>
  \<^verbatim>\<open>open_project\<close> compares the extension with \<^verbatim>\<open>.geo.json\<close>, which no extension equals, so
  the name of the file alone does not bring it to the Bedrock codec there: an empty object
  in \<^verbatim>\<open>model.geo.json\<close> is opened with the project codec. \<^verbatim>\<open>open_projects_from_folder\<close> tests
  the end of the whole path instead.
\<close>

lemma open_project_geo_json_suffix_unseen:
  "open_project_binding sample_Formats True ''model.geo.json'' (JObject [])
   = Inr (Codecs_project, Some ''free'')"
  by (simp add: open_project_binding_def ext_model_geo_json meta_model_format_def Formats_named_def
      sample_Formats_def)

text \<open>
  C1, as amended. For a path that ends in \<^verbatim>\<open>.geo.json\<close> and a content without a truthy
  \<^verbatim>\<open>meta.model_format\<close>: \<^verbatim>\<open>open_projects_from_folder\<close> chooses the Bedrock codec and format
  for every content other than \<^verbatim>\<open>null\<close>, and \<^verbatim>\<open>open_project\<close> chooses them whenever the
  content has a truthy \<^verbatim>\<open>minecraft:geometry\<close> or \<^verbatim>\<open>format_version\<close>.
\<close>

theorem geo_json_suffix_binding:
  assumes "endsWith path ''.geo.json''" and "\<not> truthy (meta_model_format parsed)"
  shows "(parsed \<noteq> JNull \<longrightarrow>
            folder_binding F optifine path parsed = Inr (Some (Codecs_bedrock, Formats_named F ''bedrock'')))
       \<and> (truthy (property parsed ''minecraft:geometry'') \<or> truthy (property parsed ''format_version'') \<longrightarrow>
            open_project_binding F optifine path parsed = Inr (Codecs_bedrock, Formats_named F ''bedrock''))"
proof -
  have ext: "toLowerCase (extname path) = ''.json''"
    using assms(1) by (simp add: extname_geo_json)
  have nb: "\<not> endsWith path ''.bbmodel''"
    using assms(1) by (auto simp: endsWith_iff)
  show ?thesis using assms nb
    by (auto simp: ext folder_binding_def open_project_binding_def Let_def)
qed

theorem geo_json_suffix_binding_witness:
  "folder_binding sample_Formats True ''model.geo.json'' (JObject [(''format_version'', JString ''1.12.0'')])
     = Inr (Some (Codecs_bedrock, Formats_named sample_Formats ''bedrock''))
   \<and> open_project_binding sample_Formats True ''model.geo.json'' (JObject [(''format_version'', JString ''1.12.0'')])
     = Inr (Codecs_bedrock, Formats_named sample_Formats ''bedrock'')"
proof -
  have h1: "endsWith ''model.geo.json'' ''.geo.json''"
    by (simp add: endsWith_def)
  have h2: "\<not> truthy (meta_model_format (JObject [(''format_version'', JString ''1.12.0'')]))"
    by (simp add: meta_model_format_def)
  from geo_json_suffix_binding [OF h1 h2, of sample_Formats True] show ?thesis
    by simp
qed

text \<open>
  The claim as stated, "whatever the content", fails: the format tag of a native project
  is tested before the name, so a tagged content in \<^verbatim>\<open>model.geo.json\<close> gets the project codec.
\<close>

theorem open_project_geo_json_with_format_tag:
  "endsWith ''model.geo.json'' ''.geo.json'' \<and>
   open_project_binding sample_Formats True ''model.geo.json''
     (JObject [(''meta'', JObject [(''model_format'', JString ''free'')])])
   = Inr (Codecs_project, Some ''free'') \<and>
   open_project_binding sample_Formats True ''model.geo.json''
     (JObject [(''meta'', JObject [(''model_format'', JString ''free'')])])
   \<noteq> Inr (Codecs_bedrock, Formats_named sample_Formats ''bedrock'')"
  by (simp add: open_project_binding_def ext_model_geo_json meta_model_format_def native_format_def
      sample_Formats_def endsWith_def)




text \<open>
  On a path that ends in \<^verbatim>\<open>.geo.json\<close> the two tools part: \<^verbatim>\<open>open_projects_from_folder\<close>
  sees the end of the path and chooses the Bedrock codec before it looks for \<^verbatim>\<open>elements\<close>,
  \<^verbatim>\<open>open_project\<close> compares the extension with \<^verbatim>\<open>.geo.json\<close>, which is never equal, and
  goes on to the Java block rule.
\<close>

lemma folder_binding_geo_json_elements:
  "folder_binding sample_Formats True ''model.geo.json'' (JObject [(''elements'', JArray [])])
   = Inr (Some (Codecs_bedrock, Some ''bedrock''))"
  by (simp add: folder_binding_def endsWith_def meta_model_format_def Formats_named_def sample_Formats_def)

lemma open_project_binding_geo_json_elements:
  "open_project_binding sample_Formats True ''model.geo.json'' (JObject [(''elements'', JArray [])])
   = Inr (Codecs_java_block, Some ''java_block'')"
  by (simp add: open_project_binding_def ext_model_geo_json meta_model_format_def Formats_named_def
      sample_Formats_def)

text \<open>
  C6, as amended. For a path whose extension, lower-cased, is \<^verbatim>\<open>.json\<close> and that does not
  end in \<^verbatim>\<open>.geo.json\<close>, and a content whose \<^verbatim>\<open>elements\<close> is truthy and that has no truthy
  \<^verbatim>\<open>meta.model_format\<close>, \<^verbatim>\<open>minecraft:geometry\<close> or \<^verbatim>\<open>format_version\<close>, both \<^verbatim>\<open>open_project\<close> and
  \<^verbatim>\<open>open_projects_from_folder\<close> choose the Java block codec and format.
\<close>

theorem json_elements_binding:
  assumes "toLowerCase (extname path) = ''.json''"
    and "\<not> endsWith path ''.geo.json''"
    and "truthy (property parsed ''elements'')"
    and "\<not> truthy (meta_model_format parsed)"
    and "\<not> truthy (property parsed ''minecraft:geometry'')"
    and "\<not> truthy (property parsed ''format_version'')"
  shows "open_project_binding F optifine path parsed = Inr (Codecs_java_block, Formats_named F ''java_block'')
       \<and> folder_binding F optifine path parsed = Inr (Some (Codecs_java_block, Formats_named F ''java_block''))"
proof -
  from assms(3) have nn: "parsed \<noteq> JNull"
    by auto
  from assms(1) have nb: "\<not> endsWith path ''.bbmodel''"
    by (rule not_bbmodel_of_json)
  have o: "open_project_binding F optifine path parsed = Inr (Codecs_java_block, Formats_named F ''java_block'')"
    using assms nn by (simp add: open_project_binding_def Let_def)
  have f: "folder_binding F optifine path parsed = Inr (Some (Codecs_java_block, Formats_named F ''java_block''))"
    using assms nn nb by (simp add: folder_binding_def Let_def)
  from o f show ?thesis
    by simp
qed

theorem json_elements_binding_witness:
  "open_project_binding sample_Formats True ''block/stone.json'' (JObject [(''elements'', JArray [])])
     = Inr (Codecs_java_block, Formats_named sample_Formats ''java_block'')
   \<and> folder_binding sample_Formats True ''block/stone.json'' (JObject [(''elements'', JArray [])])
     = Inr (Some (Codecs_java_block, Formats_named sample_Formats ''java_block''))"
proof -
  have h1: "toLowerCase (extname ''block/stone.json'') = ''.json''"
    by (simp add: extname_json [where c = "CHR ''e''"] endsWith_def)
  have h2: "\<not> endsWith ''block/stone.json'' ''.geo.json''"
    by (simp add: endsWith_def)
  show ?thesis
    by (rule json_elements_binding [OF h1 h2]) (simp_all add: meta_model_format_def)
qed

text \<open>
  The claim as stated fails twice. A key \<^verbatim>\<open>elements\<close> with a falsy value does not count, and
  a file named \<^verbatim>\<open>.json\<close> has no extension; both inputs reach the last \<^verbatim>\<open>else\<close>.
\<close>

theorem open_project_binding_elements_unseen:
  "endsWith ''model.json'' ''.json'' \<and>
   map_of [(''elements'', JNull)] ''elements'' \<noteq> None \<and>
   open_project_binding sample_Formats True ''model.json'' (JObject [(''elements'', JNull)])
     = Inr (Codecs_project, Some ''free'') \<and>
   endsWith ''models/.json'' ''.json'' \<and>
   open_project_binding sample_Formats True ''models/.json'' (JObject [(''elements'', JArray [])])
     = Inr (Codecs_project, Some ''free'')"
  by (simp add: open_project_binding_def extname_def basename_def toLowerCase_def toLowerCase_char_def
      meta_model_format_def endsWith_def Formats_named_def sample_Formats_def)

section \<open>Numerals and \<^verbatim>\<open>parseInt\<close>\<close>

lemma below_ten: "n < 10 \<Longrightarrow> n \<in> {0, 1, 2, 3, 4, 5, 6, 7, 8, 9 :: nat}"
  by simp arith

lemma digit_value_nth: "n < 10 \<Longrightarrow> digit_value (digit_chars ! n) = n"
  by (drule below_ten) (auto simp: digit_value_def digit_chars_def upt_rec)

lemma isDigit_nth: "n < 10 \<Longrightarrow> isDigit (digit_chars ! n)"
  by (drule below_ten) (auto simp: isDigit_def digit_chars_def)

lemma toString_nat_digits: "\<forall>c \<in> set (toString_nat n). isDigit c"
proof (induction n rule: toString_nat.induct)
  case (1 n)
  show ?case
  proof (cases "n < 10")
    case True
    then show ?thesis by (simp add: toString_nat.simps [of n] isDigit_nth)
  next
    case False
    with 1 show ?thesis by (simp add: toString_nat.simps [of n] isDigit_nth)
  qed
qed

lemma toString_nat_not_Nil: "toString_nat n \<noteq> []"
  by (simp add: toString_nat.simps [of n])

lemma toString_nat_value: "foldl (\<lambda>a c. 10 * a + digit_value c) 0 (toString_nat n) = n"
proof (induction n rule: toString_nat.induct)
  case (1 n)
  show ?case
  proof (cases "n < 10")
    case True
    then show ?thesis by (simp add: toString_nat.simps [of n] digit_value_nth)
  next
    case False
    with 1 show ?thesis by (simp add: toString_nat.simps [of n] digit_value_nth)
  qed
qed

lemma white_space_hd:
  "w \<in> set white_space \<Longrightarrow>
   w \<noteq> [] \<and> hd w \<in> set [CHR 0x09, CHR 0x0A, CHR 0x0B, CHR 0x0C, CHR 0x0D, CHR 0x20,
                          CHR 0xC2, CHR 0xE1, CHR 0xE2, CHR 0xE3, CHR 0xEF]"
  unfolding white_space_def by (elim set_ConsD [elim_format] disjE) simp_all

lemma leading_space_digit:
  assumes "isDigit c"
  shows "leading_space (c # s) = 0"
proof (rule ccontr)
  assume "leading_space (c # s) \<noteq> 0"
  then obtain w where "find (\<lambda>w. take (length w) (c # s) = w) white_space = Some w"
    by (auto simp: leading_space_def split: option.splits)
  then have w: "w \<in> set white_space" "take (length w) (c # s) = w"
    by (auto simp: find_Some_iff)
  from white_space_hd [OF w(1)] have ne: "w \<noteq> []"
    and hd: "hd w \<in> set [CHR 0x09, CHR 0x0A, CHR 0x0B, CHR 0x0C, CHR 0x0D, CHR 0x20,
                          CHR 0xC2, CHR 0xE1, CHR 0xE2, CHR 0xE3, CHR 0xEF]"
    by simp_all
  from ne w(2) have "hd w = c"
    by (cases w) auto
  with hd have "c \<in> set [CHR 0x09, CHR 0x0A, CHR 0x0B, CHR 0x0C, CHR 0x0D, CHR 0x20,
                          CHR 0xC2, CHR 0xE1, CHR 0xE2, CHR 0xE3, CHR 0xEF]"
    by simp
  moreover from assms have "c \<in> set ''0123456789''"
    by (simp add: isDigit_def digit_chars_def)
  ultimately show False
    by auto
qed

lemma parseInt_digits:
  assumes "s \<noteq> []" "\<forall>c \<in> set s. isDigit c"
  shows "parseInt s = Some (int (foldl (\<lambda>a c. 10 * a + digit_value c) 0 s))"
proof -
  from assms obtain c r where s: "s = c # r" and c: "isDigit c"
    by (cases s) auto
  have t: "trimStart s = s"
    by (simp add: trimStart.simps [of "c # r"] s leading_space_digit c)
  have sign: "c \<noteq> CHR ''-''" "c \<noteq> CHR ''+''"
    using c by (auto simp: isDigit_def digit_chars_def)
  have tw: "takeWhile isDigit s = s"
    using assms(2) by (simp add: takeWhile_eq_all_conv)
  have u: "take 1 s \<noteq> ''-''" "take 1 s \<noteq> ''+''"
    using sign by (simp_all add: s)
  have u': "(if take 1 s = ''-'' \<or> take 1 s = ''+'' then drop 1 s else s) = s"
    using u by simp
  have "parseInt s = (if s = [] then None else Some ((if take 1 s = ''-'' then - 1 else 1) * int (foldl (\<lambda>a c. 10 * a + digit_value c) 0 s)))"
    by (simp only: parseInt_def Let_def t u' tw)
  with u(1) assms(1) show ?thesis by simp
qed

lemma parseInt_toString_nat: "parseInt (toString_nat n) = Some (int n)"
  using parseInt_digits [OF toString_nat_not_Nil toString_nat_digits, of n]
  by (simp add: toString_nat_value)

lemma switch_target_index:
  assumes "1 \<le> N" "N \<le> length projects"
  shows "switch_target projects (toString_nat N) = Some (projects ! (N - 1))"
proof -
  have "nat (int N - 1) = N - 1" by simp
  with assms show ?thesis
    by (simp add: switch_target_def parseInt_toString_nat)
qed


section \<open>\<^verbatim>\<open>open_project\<close> on a file that is not JSON\<close>

text \<open>
  C9. When the file exists and is read but \<^verbatim>\<open>JSON.parse\<close> rejects its content, whatever
  the extension, \<^verbatim>\<open>open_project\<close> fails with the parse error and returns the host as it
  was: no project is created, the tabs and the active project are the same. The result
  is the same whatever \<^verbatim>\<open>newProject\<close> and \<^verbatim>\<open>codec.parse\<close> would do, since neither is called.
\<close>

theorem open_project_invalid_json:
  assumes "existsSync H path w" and "readFileSync H path w = Inr content"
    and "JSON_parse H content = None"
  shows "open_project H path w = (Inl (Error (''Failed to parse file as JSON: '' @ path)), w)
       \<and> open_project (H\<lparr>newProject := np, codec_parse := cp\<rparr>) path w
           = (Inl (Error (''Failed to parse file as JSON: '' @ path)), w)"
  using assms by (simp add: open_project_def)

theorem open_project_invalid_json_witness:
  "open_project sample_host ''models/b.json'' three_files
     = (Inl (Error ''Failed to parse file as JSON: models/b.json''), three_files)"
proof -
  have h1: "existsSync sample_host ''models/b.json'' three_files"
    by (simp add: sample_host_def three_files_def)
  have h2: "readFileSync sample_host ''models/b.json'' three_files = Inr ''{''"
    by (simp add: sample_host_def three_files_def)
  have h3: "JSON_parse sample_host ''{'' = None"
    by (simp add: sample_host_def sample_parse_def)
  from open_project_invalid_json [OF h1 h2 h3] show ?thesis
    by simp
qed

section \<open>Switching and closing\<close>

lemma switch_target_uuid:
  "\<not> index_in_range projects identifier \<Longrightarrow>
   switch_target projects identifier = find (\<lambda>p. uuid p = identifier) projects"
  by (auto simp: switch_target_def index_in_range_def split: option.splits)

lemma find_None_uuid: "identifier \<notin> uuid ` set projects \<Longrightarrow> find (\<lambda>p. uuid p = identifier) projects = None"
  by (auto simp: find_None_iff)

text \<open>
  \<^verbatim>\<open>parseInt\<close> reads the digits a string starts with, so a UUID that starts with the number
  of a tab is taken for that number.
\<close>

lemma switch_target_uuid_leading_digit:
  "switch_target [\<lparr>obj = 0, name = ''cube'', uuid = ''aaaa'', format_id = None\<rparr>,
                  \<lparr>obj = 1, name = ''door'', uuid = ''1bbb'', format_id = None\<rparr>] ''1bbb''
   = Some \<lparr>obj = 0, name = ''cube'', uuid = ''aaaa'', format_id = None\<rparr>"
  by (simp add: switch_target_def parseInt_def trimStart.simps [of "''1bbb''"] leading_space_def
      white_space_def isDigit_def digit_chars_def digit_value_def upt_rec)

text \<open>
  C4, as amended. With at least one project open: \<^verbatim>\<open>switch_project\<close> given the decimal
  numeral of a position from 1 to the number of projects takes the project at that
  position; given an identifier that \<^verbatim>\<open>parseInt\<close> does not read as such a position, it takes
  the first project with exactly that UUID, and when there is none it fails with "Project
  not found" and leaves the host as it was. \<^verbatim>\<open>close_project\<close> given a non-empty \<^verbatim>\<open>uuid\<close>
  looks for exactly that UUID only, never for a position, and when no project has it
  fails with "Project not found" and leaves the host as it was.
\<close>

theorem switch_close_resolution:
  assumes "ModelProject_all H w = Some projects" and "projects \<noteq> []"
  shows "(1 \<le> N \<and> N \<le> length projects \<longrightarrow>
            switch_target projects (toString_nat N) = Some (projects ! (N - 1)))
       \<and> (\<not> index_in_range projects identifier \<longrightarrow>
            switch_target projects identifier = find (\<lambda>p. uuid p = identifier) projects)
       \<and> (\<not> index_in_range projects identifier \<and> identifier \<notin> uuid ` set projects \<longrightarrow>
            switch_project H identifier w
            = (Inl (Error (''Project not found: '' @ identifier @ ''. Use '' @ [quote]
                     @ ''list_open_projects'' @ [quote] @ '' to see available projects.'')), w))
       \<and> (u \<noteq> [] \<longrightarrow>
            close_target H w projects (Some u)
            = (case find (\<lambda>p. uuid p = u) projects of
                 None \<Rightarrow> Inl (Error (''Project not found: '' @ u))
               | Some targetProject \<Rightarrow> Inr targetProject))
       \<and> (u \<noteq> [] \<and> u \<notin> uuid ` set projects \<longrightarrow>
            close_project H (Some u) force w = (Inl (Error (''Project not found: '' @ u)), w))"
  using assms
  by (simp add: switch_target_index switch_target_uuid find_None_uuid switch_project_def
      close_project_def close_target_def)

lemma parseInt_zzzz: "parseInt ''zzzz'' = None"
  by (simp add: parseInt_def trimStart.simps [of "''zzzz''"] leading_space_def white_space_def isDigit_def digit_chars_def)

theorem switch_close_resolution_witness:
  "switch_target (tabs two_tabs) (toString_nat 2) = Some (tabs two_tabs ! 1)
   \<and> switch_target (tabs two_tabs) ''zzzz'' = find (\<lambda>p. uuid p = ''zzzz'') (tabs two_tabs)
   \<and> switch_project sample_host ''zzzz'' two_tabs
       = (Inl (Error (''Project not found: zzzz. Use '' @ [quote]
                     @ ''list_open_projects'' @ [quote] @ '' to see available projects.'')), two_tabs)
   \<and> close_project sample_host (Some ''zzzz'') False two_tabs
       = (Inl (Error ''Project not found: zzzz''), two_tabs)"
proof -
  have h1: "ModelProject_all sample_host two_tabs = Some (tabs two_tabs)"
    by (simp add: sample_host_def)
  have h2: "tabs two_tabs \<noteq> []"
    by (simp add: two_tabs_def)
  have r: "\<not> index_in_range (tabs two_tabs) ''zzzz''"
    by (simp add: index_in_range_def parseInt_zzzz)
  have n: "''zzzz'' \<notin> uuid ` set (tabs two_tabs)"
    by (simp add: two_tabs_def)
  have l: "(1::nat) \<le> 2 \<and> 2 \<le> length (tabs two_tabs)"
    by (simp add: two_tabs_def)
  from switch_close_resolution [OF h1 h2, of 2 "''zzzz''" "''zzzz''" False] r n l
  show ?thesis by simp
qed

text \<open>
  The claim as stated has \<^verbatim>\<open>close_project\<close> resolve a 1-based index as well. It does not:
  with two projects open, \<^verbatim>\<open>uuid = "1"\<close> closes nothing.
\<close>

theorem close_project_by_index:
  "close_project sample_host (Some ''1'') False two_tabs
     = (Inl (Error ''Project not found: 1''), two_tabs)"
  by (simp add: close_project_def close_target_def sample_host_def two_tabs_def)


section \<open>Scanning a folder\<close>

lemma found_simps [simp]:
  "found join allowed [] = []"
  "found join allowed ((d, n) # fs) = (if wanted allowed n then join d n # found join allowed fs else found join allowed fs)"
  "found join allowed (fs @ gs) = found join allowed fs @ found join allowed gs"
  by (simp_all add: found_def)

lemma scanEntries_flat:
  "scanEntries join False allowed dir entries acc
   = Inr (acc @ map (join dir) (filter (wanted allowed) (file_names entries)))"
  by (induction entries arbitrary: acc rule: file_names.induct) (auto simp: wanted_def)

lemma scanEntries_deep:
  "readable entries \<Longrightarrow>
   scanEntries join True allowed dir entries acc = Inr (acc @ found join allowed (files_below join dir entries))"
  by (induction join dir entries arbitrary: acc rule: files_below.induct) (auto simp: wanted_def)

lemma scanEntries_deep_readable:
  "scanEntries join True allowed dir entries acc = Inr projectFiles \<Longrightarrow> readable entries"
  by (induction join dir entries arbitrary: acc projectFiles rule: files_below.induct)
    (auto split: sum.splits if_splits)


lemma found_member:
  "(d, n) \<in> set fs \<Longrightarrow> wanted allowed n \<Longrightarrow> join d n \<in> set (found join allowed fs)"
  by (auto simp: found_def)

lemma readable_buried: "readable [buried k d n]"
  by (induction k) simp_all

lemma files_below_buried: "files_below join dir [buried k d n] = [(descend join k dir d, n)]"
  by (induction k arbitrary: dir) simp_all

lemma file_names_buried: "file_names [buried (Suc k) d n] = []"
  by simp

text \<open>
  C7. A file whose name ends in \<^verbatim>\<open>.geo.json\<close> and that lies in the scanned directory (at
  any depth below it when \<^verbatim>\<open>recursive\<close> is set, all directories being listed then) is in the
  list the scan returns as soon as \<^verbatim>\<open>.geo.json\<close> is an allowed extension, whether \<^verbatim>\<open>.json\<close>
  is allowed or not, although the extension of such a name is \<^verbatim>\<open>.json\<close>.
\<close>

theorem scan_geo_json_by_full_name:
  assumes "(d, n) \<in> set (if recursive then files_below join dir entries
                         else map (Pair dir) (file_names entries))"
    and "endsWith n ''.geo.json''" and "''.geo.json'' \<in> set allowed"
    and "recursive \<longrightarrow> readable entries"
  shows "\<exists>projectFiles. scanDirectory join recursive allowed dir (Inr entries) [] = Inr projectFiles
           \<and> join d n \<in> set projectFiles \<and> toLowerCase (extname n) = ''.json''"
proof -
  have w: "wanted allowed n"
    using assms(2,3) by (simp add: wanted_def)
  have e: "toLowerCase (extname n) = ''.json''"
    using assms(2) by (simp add: extname_geo_json)
  show ?thesis
  proof (cases recursive)
    case True
    with assms(4) have "scanDirectory join recursive allowed dir (Inr entries) []
        = Inr (found join allowed (files_below join dir entries))"
      by (simp add: scanEntries_deep)
    moreover from assms(1) True w have "join d n \<in> set (found join allowed (files_below join dir entries))"
      by (simp add: found_member)
    ultimately show ?thesis
      using e by simp
  next
    case False
    then have "scanDirectory join recursive allowed dir (Inr entries) []
        = Inr (map (join dir) (filter (wanted allowed) (file_names entries)))"
      by (simp add: scanEntries_flat)
    moreover from assms(1) False w
    have "join d n \<in> set (map (join dir) (filter (wanted allowed) (file_names entries)))"
      by auto
    ultimately show ?thesis
      using e by simp
  qed
qed

lemma ext_c_geo_json: "toLowerCase (extname ''c.geo.json'') = ''.json''"
  by (simp add: extname_geo_json endsWith_def)

lemma ext_a_json: "toLowerCase (extname ''a.json'') = ''.json''"
  by (simp add: extname_json [where c = "CHR ''a''"] endsWith_def)

theorem scan_geo_json_by_full_name_witness:
  "\<exists>projectFiles.
     scanDirectory slash_join True [''.geo.json''] ''models''
       (Inr [File ''a.json'', Directory ''sub'' (Inr [File ''c.geo.json''])]) [] = Inr projectFiles
     \<and> slash_join ''models/sub'' ''c.geo.json'' \<in> set projectFiles
     \<and> toLowerCase (extname ''c.geo.json'') = ''.json''"
proof -
  have h1: "(''models/sub'', ''c.geo.json'') \<in> set (if True
               then files_below slash_join ''models'' [File ''a.json'', Directory ''sub'' (Inr [File ''c.geo.json''])]
               else map (Pair ''models'') (file_names [File ''a.json'', Directory ''sub'' (Inr [File ''c.geo.json''])]))"
    by (simp add: slash_join_def)
  have h2: "endsWith ''c.geo.json'' ''.geo.json''"
    by (simp add: endsWith_def)
  have h3: "''.geo.json'' \<in> set [''.geo.json'']"
    by simp
  have h4: "True \<longrightarrow> readable [File ''a.json'', Directory ''sub'' (Inr [File ''c.geo.json''])]"
    by simp
  show ?thesis
    by (rule scan_geo_json_by_full_name [OF h1 h2 h3 h4])
qed

lemma scan_geo_json_only:
  "scanDirectory slash_join True [''.geo.json''] ''models''
     (Inr [File ''a.json'', Directory ''sub'' (Inr [File ''c.geo.json''])]) []
   = Inr [''models/sub/c.geo.json'']"
  by (simp add: ext_c_geo_json ext_a_json endsWith_def slash_join_def)

text \<open>
  C8. Without \<^verbatim>\<open>recursive\<close> the scan gives exactly the wanted files of the directory
  itself, in order, whatever its subdirectories hold and whether they can be listed or
  not. With \<^verbatim>\<open>recursive\<close> it gives exactly the wanted files at every depth when all
  directories can be listed, and it returns no list otherwise. In particular a wanted
  file under \<open>k\<close> nested directories is found with \<^verbatim>\<open>recursive\<close>, for every \<open>k\<close>, and is not
  found without it as soon as \<open>k\<close> is positive.
\<close>

theorem scan_recursive_flag:
  "scanDirectory join False allowed dir (Inr entries) []
     = Inr (map (join dir) (filter (wanted allowed) (file_names entries)))
   \<and> (readable entries \<longrightarrow>
        scanDirectory join True allowed dir (Inr entries) []
        = Inr (found join allowed (files_below join dir entries)))
   \<and> (\<forall>projectFiles. scanDirectory join True allowed dir (Inr entries) [] = Inr projectFiles
        \<longrightarrow> readable entries)
   \<and> (wanted allowed n \<longrightarrow>
        scanDirectory join True allowed dir (Inr [buried k d n]) [] = Inr [join (descend join k dir d) n]
        \<and> scanDirectory join False allowed dir (Inr [buried (Suc k) d n]) [] = Inr [])"
proof -
  have flat: "scanDirectory join False allowed dir (Inr entries) []
     = Inr (map (join dir) (filter (wanted allowed) (file_names entries)))"
    by (simp add: scanEntries_flat)
  have deep: "readable entries \<longrightarrow>
        scanDirectory join True allowed dir (Inr entries) []
        = Inr (found join allowed (files_below join dir entries))"
    by (simp add: scanEntries_deep)
  have only: "\<forall>projectFiles. scanDirectory join True allowed dir (Inr entries) [] = Inr projectFiles
        \<longrightarrow> readable entries"
    by (auto dest: scanEntries_deep_readable)
  have chain: "wanted allowed n \<longrightarrow>
        scanDirectory join True allowed dir (Inr [buried k d n]) [] = Inr [join (descend join k dir d) n]
        \<and> scanDirectory join False allowed dir (Inr [buried (Suc k) d n]) [] = Inr []"
  proof
    assume w: "wanted allowed n"
    have "scanDirectory join True allowed dir (Inr [buried k d n]) []
            = Inr (found join allowed (files_below join dir [buried k d n]))"
      using readable_buried [of k d n] by (simp add: scanEntries_deep del: buried.simps)
    with w have a: "scanDirectory join True allowed dir (Inr [buried k d n]) []
            = Inr [join (descend join k dir d) n]"
      by (simp add: files_below_buried)
    have b: "scanDirectory join False allowed dir (Inr [buried (Suc k) d n]) [] = Inr []"
      by (simp add: scanEntries_flat)
    from a b show "scanDirectory join True allowed dir (Inr [buried k d n]) [] = Inr [join (descend join k dir d) n]
        \<and> scanDirectory join False allowed dir (Inr [buried (Suc k) d n]) [] = Inr []"
      by simp
  qed
  from flat deep only chain show ?thesis
    by blast
qed

lemma wanted_three:
  "wanted PROJECT_EXTENSIONS ''a.json''" "wanted PROJECT_EXTENSIONS ''c.geo.json''"
  "wanted PROJECT_EXTENSIONS ''d.bbmodel''" "\<not> wanted PROJECT_EXTENSIONS ''notes.txt''"
  by (simp_all add: wanted_def PROJECT_EXTENSIONS_def endsWith_def extname_def basename_def
      toLowerCase_def toLowerCase_char_def)

theorem scan_recursive_flag_witness:
  "scanDirectory slash_join False PROJECT_EXTENSIONS ''models''
     (Inr [File ''a.json'', File ''notes.txt'',
           Directory ''sub'' (Inr [File ''c.geo.json'', Directory ''deep'' (Inr [File ''d.bbmodel''])])]) []
     = Inr [''models/a.json'']
   \<and> scanDirectory slash_join True PROJECT_EXTENSIONS ''models''
     (Inr [File ''a.json'', File ''notes.txt'',
           Directory ''sub'' (Inr [File ''c.geo.json'', Directory ''deep'' (Inr [File ''d.bbmodel''])])]) []
     = Inr [''models/a.json'', ''models/sub/c.geo.json'', ''models/sub/deep/d.bbmodel'']
   \<and> scanDirectory slash_join True PROJECT_EXTENSIONS ''models'' (Inr [buried 3 ''x'' ''d.bbmodel'']) []
     = Inr [''models/x/x/x/d.bbmodel'']"
proof -
  have r: "readable [File ''a.json'', File ''notes.txt'',
           Directory ''sub'' (Inr [File ''c.geo.json'', Directory ''deep'' (Inr [File ''d.bbmodel''])])]"
    by simp
  have d: "descend slash_join 3 ''models'' ''x'' = ''models/x/x/x''"
    by (simp add: numeral_3_eq_3 slash_join_def)
  note t = scan_recursive_flag [of slash_join PROJECT_EXTENSIONS "''models''"
      "[File ''a.json'', File ''notes.txt'',
           Directory ''sub'' (Inr [File ''c.geo.json'', Directory ''deep'' (Inr [File ''d.bbmodel''])])]"
      "''d.bbmodel''" 3 "''x''"]
  from t have t1: "scanDirectory slash_join False PROJECT_EXTENSIONS ''models''
     (Inr [File ''a.json'', File ''notes.txt'',
           Directory ''sub'' (Inr [File ''c.geo.json'', Directory ''deep'' (Inr [File ''d.bbmodel''])])]) []
     = Inr (map (slash_join ''models'') (filter (wanted PROJECT_EXTENSIONS)
         (file_names [File ''a.json'', File ''notes.txt'',
           Directory ''sub'' (Inr [File ''c.geo.json'', Directory ''deep'' (Inr [File ''d.bbmodel''])])])))"
    by (rule conjunct1)
  from t r have t2: "scanDirectory slash_join True PROJECT_EXTENSIONS ''models''
     (Inr [File ''a.json'', File ''notes.txt'',
           Directory ''sub'' (Inr [File ''c.geo.json'', Directory ''deep'' (Inr [File ''d.bbmodel''])])]) []
     = Inr (found slash_join PROJECT_EXTENSIONS (files_below slash_join ''models''
         [File ''a.json'', File ''notes.txt'',
           Directory ''sub'' (Inr [File ''c.geo.json'', Directory ''deep'' (Inr [File ''d.bbmodel''])])]))"
    by blast
  from t wanted_three(3) have t3: "scanDirectory slash_join True PROJECT_EXTENSIONS ''models''
       (Inr [buried 3 ''x'' ''d.bbmodel'']) []
     = Inr [slash_join (descend slash_join 3 ''models'' ''x'') ''d.bbmodel'']"
    by blast
  show ?thesis
    unfolding t1 t2 t3 d by (simp add: wanted_three slash_join_def)
qed

section \<open>Opening the files of a folder\<close>

lemma open_files_outcomes:
  "open_files H projectFiles (results, errors, w)
   = (results @ opened_of (outcomes H projectFiles w),
      errors @ failed_of (outcomes H projectFiles w),
      after_files H projectFiles w)"
proof (induction projectFiles arbitrary: results errors w)
  case Nil
  show ?case by simp
next
  case (Cons filePath projectFiles)
  obtain out w' where o: "open_file H filePath w = (out, w')"
    by (cases "open_file H filePath w")
  show ?case
    by (cases out) (simp_all add: o Cons.IH)
qed

lemma length_outcomes: "length (outcomes H projectFiles w) = length projectFiles"
  by (induction projectFiles arbitrary: w) simp_all

lemma length_opened_failed: "length (opened_of outs) + length (failed_of outs) = length outs"
  by (induction outs rule: opened_of.induct) simp_all

lemma outcomes_append:
  "outcomes H (before @ rest) w = outcomes H before w @ outcomes H rest (after_files H before w)"
  by (induction before arbitrary: w) simp_all

lemma open_file_names_file: "names_file filePath (fst (open_file H filePath w))"
  by (auto simp: open_file_def names_file_def opening_error_def
      split: sum.splits option.splits prod.splits)

lemma outcomes_name_files:
  "i < length projectFiles \<Longrightarrow> names_file (projectFiles ! i) (outcomes H projectFiles w ! i)"
proof (induction projectFiles arbitrary: w i)
  case Nil
  then show ?case by simp
next
  case (Cons filePath projectFiles)
  then show ?case
    by (cases i) (simp_all add: open_file_names_file)
qed

lemma foldl_join:
  "foldl (\<lambda>acc y. acc @ sep @ y) a r = a @ concat (map (\<lambda>y. sep @ y) r)"
  by (induction r arbitrary: a) simp_all

lemma join_with_Cons: "join_with sep (x # r) = x @ concat (map (\<lambda>y. sep @ y) r)"
  by (simp add: join_with_def foldl_join)

lemma concat_map_contains:
  "x \<in> set r \<Longrightarrow> \<exists>pre post. concat (map (\<lambda>y. sep @ y) r) = pre @ x @ post"
proof (induction r)
  case Nil
  then show ?case by simp
next
  case (Cons y r)
  show ?case
  proof (cases "x = y")
    case True
    have "concat (map (\<lambda>y. sep @ y) (y # r)) = sep @ x @ concat (map (\<lambda>y. sep @ y) r)"
      using True by simp
    then show ?thesis by blast
  next
    case False
    with Cons obtain pre post where "concat (map (\<lambda>y. sep @ y) r) = pre @ x @ post"
      by auto
    then have "concat (map (\<lambda>y. sep @ y) (y # r)) = (sep @ y @ pre) @ x @ post"
      by simp
    then show ?thesis by blast
  qed
qed

lemma join_with_contains:
  assumes "x \<in> set xs"
  shows "\<exists>pre post. join_with sep xs = pre @ x @ post"
proof (cases xs)
  case Nil
  with assms show ?thesis by simp
next
  case (Cons y r)
  show ?thesis
  proof (cases "x = y")
    case True
    then have "join_with sep xs = [] @ x @ concat (map (\<lambda>y. sep @ y) r)"
      by (simp add: Cons join_with_Cons)
    then show ?thesis by blast
  next
    case False
    with assms Cons have "x \<in> set r" by simp
    then obtain pre post where "concat (map (\<lambda>y. sep @ y) r) = pre @ x @ post"
      using concat_map_contains by blast
    then have "join_with sep xs = (y @ pre) @ x @ post"
      by (simp add: Cons join_with_Cons)
    then show ?thesis by blast
  qed
qed

lemma bullets_contains:
  assumes "f \<in> set xs"
  shows "\<exists>pre post. bullets xs = pre @ ''  - '' @ f @ post"
proof -
  from assms have "''  - '' @ f \<in> set (map (\<lambda>f. ''  - '' @ f) xs)"
    by auto
  from join_with_contains [OF this, of "[newline]"] obtain pre post
    where "bullets xs = pre @ (''  - '' @ f) @ post"
    unfolding bullets_def by blast
  then have "bullets xs = pre @ ''  - '' @ f @ post" by simp
  then show ?thesis by blast
qed

lemma folder_report_lists:
  assumes "f \<in> set results \<union> set errors"
  shows "\<exists>pre post. folder_report folder results errors = pre @ ''  - '' @ f @ post"
proof -
  from assms consider "f \<in> set results" | "f \<in> set errors" by auto
  then show ?thesis
  proof cases
    case 1
    then obtain pre post where b: "bullets results = pre @ ''  - '' @ f @ post"
      using bullets_contains by blast
    from 1 have "results \<noteq> []" by auto
    then have "folder_report folder results errors
        = (''Opened '' @ toString_nat (length results) @ '' project(s) from: '' @ folder
           @ [newline, newline] @ ''Opened files:'' @ [newline])
          @ bullets results
          @ (if length errors > 0 then
               [newline, newline] @ ''Errors ('' @ toString_nat (length errors) @ ''):'' @ [newline]
               @ bullets errors
             else [])"
      by (simp add: folder_report_def)
    then obtain a c where "folder_report folder results errors = a @ bullets results @ c" by blast
    with b have "folder_report folder results errors = (a @ pre) @ ''  - '' @ f @ (post @ c)"
      by simp
    then show ?thesis by blast
  next
    case 2
    then obtain pre post where b: "bullets errors = pre @ ''  - '' @ f @ post"
      using bullets_contains by blast
    from 2 have "errors \<noteq> []" by auto
    then have "folder_report folder results errors
        = (''Opened '' @ toString_nat (length results) @ '' project(s) from: '' @ folder @ [newline]
           @ (if length results > 0 then [newline] @ ''Opened files:'' @ [newline] @ bullets results else [])
           @ [newline, newline] @ ''Errors ('' @ toString_nat (length errors) @ ''):'' @ [newline])
          @ bullets errors"
      by (simp add: folder_report_def)
    then obtain a where "folder_report folder results errors = a @ bullets errors" by blast
    with b have "folder_report folder results errors = (a @ pre) @ ''  - '' @ f @ post"
      by simp
    then show ?thesis by blast
  qed
qed

lemma folder_report_counts:
  "results \<noteq> [] \<Longrightarrow> errors \<noteq> [] \<Longrightarrow>
   folder_report folder results errors
   = ''Opened '' @ toString_nat (length results) @ '' project(s) from: '' @ folder @ [newline, newline]
     @ ''Opened files:'' @ [newline] @ bullets results @ [newline, newline]
     @ ''Errors ('' @ toString_nat (length errors) @ ''):'' @ [newline] @ bullets errors"
  by (simp add: folder_report_def)

lemma folder_binding_missing_codec:
  assumes "parsed \<noteq> JNull" and "optifine_rule_reached filePath parsed"
  shows "folder_binding F False filePath parsed = Inr None"
proof -
  from assms(2) have ext: "toLowerCase (extname filePath) = ''.jem'' \<or> toLowerCase (extname filePath) = ''.jpm''"
    by (auto simp: optifine_rule_reached_def Let_def)
  have nb: "\<not> endsWith filePath ''.bbmodel''"
  proof
    assume "endsWith filePath ''.bbmodel''"
    then have "extname filePath = [] \<or> extname filePath = ''.bbmodel''"
      by (rule extname_bbmodel)
    with ext show False
      by (auto simp: toLowerCase_bbmodel) (simp_all add: toLowerCase_def)
  qed
  have ng: "\<not> endsWith filePath ''.geo.json''"
  proof
    assume "endsWith filePath ''.geo.json''"
    then have "extname filePath = ''.json''"
      by (rule extname_geo_json)
    with ext show False
      by simp
  qed
  from assms nb ng ext show ?thesis
    by (auto simp: folder_binding_def optifine_rule_reached_def Let_def)
qed

lemma outcomes_nth:
  "i < length projectFiles \<Longrightarrow>
   outcomes H projectFiles w ! i
   = fst (open_file H (projectFiles ! i) (after_files H (take i projectFiles) w))"
proof (induction projectFiles arbitrary: w i)
  case Nil
  then show ?case by simp
next
  case (Cons filePath projectFiles)
  then show ?case
    by (cases i) simp_all
qed

lemma folder_report_text:
  "folder_report folder results errors
   = ''Opened '' @ toString_nat (length results) @ '' project(s) from: '' @ folder @ [newline]
     @ (if results = [] then [] else [newline] @ ''Opened files:'' @ [newline] @ bullets results)
     @ (if errors = [] then []
        else [newline, newline] @ ''Errors ('' @ toString_nat (length errors) @ ''):'' @ [newline]
             @ bullets errors)"
  by (simp add: folder_report_def)

lemma open_file_read_error:
  "readFileSync H filePath w = Inl e \<Longrightarrow>
   open_file H filePath w = (Inl (''Error opening '' @ filePath @ '': '' @ message e), w)"
  by (simp add: open_file_def opening_error_def)

lemma open_file_invalid_json:
  "readFileSync H filePath w = Inr content \<Longrightarrow> JSON_parse H content = None \<Longrightarrow>
   open_file H filePath w = (Inl (''Failed to parse: '' @ filePath), w)"
  by (simp add: open_file_def)

lemma open_file_null:
  "readFileSync H filePath w = Inr content \<Longrightarrow> JSON_parse H content = Some JNull \<Longrightarrow>
   open_file H filePath w
   = (Inl (''Error opening '' @ filePath @ '': '' @ message (TypeError ''meta'')), w)"
  by (simp add: open_file_def opening_error_def folder_binding_def)

lemma open_file_missing_codec:
  "readFileSync H filePath w = Inr content \<Longrightarrow> JSON_parse H content = Some parsed \<Longrightarrow>
   parsed \<noteq> JNull \<Longrightarrow> optifine_rule_reached filePath parsed \<Longrightarrow>
   \<not> Codecs_has_optifine_entity H w \<Longrightarrow>
   open_file H filePath w = (Inl (''OptiFine codec not available for: '' @ filePath), w)"
  by (simp add: open_file_def folder_binding_missing_codec)

lemma open_file_newProject_error:
  "readFileSync H filePath w = Inr content \<Longrightarrow> JSON_parse H content = Some parsed \<Longrightarrow>
   folder_binding (Formats H w) (Codecs_has_optifine_entity H w) filePath parsed = Inr (Some (codec, format)) \<Longrightarrow>
   newProject H format w = (Inl e, w1) \<Longrightarrow>
   open_file H filePath w = (Inl (''Error opening '' @ filePath @ '': '' @ message e), w1)"
  by (simp add: open_file_def opening_error_def)

lemma open_file_codec_error:
  "readFileSync H filePath w = Inr content \<Longrightarrow> JSON_parse H content = Some parsed \<Longrightarrow>
   folder_binding (Formats H w) (Codecs_has_optifine_entity H w) filePath parsed = Inr (Some (codec, format)) \<Longrightarrow>
   newProject H format w = (Inr created, w1) \<Longrightarrow>
   codec_parse H codec parsed filePath w1 = (Inl e, w2) \<Longrightarrow>
   open_file H filePath w = (Inl (''Error opening '' @ filePath @ '': '' @ message e), w2)"
  by (simp add: open_file_def opening_error_def)

lemma open_file_opened:
  "readFileSync H filePath w = Inr content \<Longrightarrow> JSON_parse H content = Some parsed \<Longrightarrow>
   folder_binding (Formats H w) (Codecs_has_optifine_entity H w) filePath parsed = Inr (Some (codec, format)) \<Longrightarrow>
   newProject H format w = (Inr created, w1) \<Longrightarrow>
   codec_parse H codec parsed filePath w1 = (Inr u, w2) \<Longrightarrow>
   open_file H filePath w = (Inr (basename filePath), w2)"
  by (simp add: open_file_def)

text \<open>
  C5. When the scan finds files, \<^verbatim>\<open>open_projects_from_folder\<close> returns a report, for every
  list of files: its header counts the names opened, which follow when there are any, and
  its error section, present when there are errors, counts and lists the error lines.
  Every file found has exactly one outcome, that of the loop body on the host as the
  files before it left it, so the two lists together are as long as the list of files and
  the files after any file are gone through whatever that file's outcome. The outcome of
  a file is: the line "Error opening", with its path and the message, when reading it
  throws, when its content is \<^verbatim>\<open>null\<close>, when \<^verbatim>\<open>newProject\<close> throws or when \<^verbatim>\<open>codec.parse\<close>
  throws; the line "Failed to parse" with its path when its content is not JSON; the line
  "OptiFine codec not available for" with its path when it is an entity model and the
  host has no OptiFine codec; its name when all of this went through.
\<close>

theorem open_projects_from_folder_report:
  assumes "existsSync H folder w" and "statSync_isDirectory H folder w = Inr True"
    and "scanDirectory (path_join H) recursive
           (case extensions of None \<Rightarrow> PROJECT_EXTENSIONS | Some xs \<Rightarrow> xs)
           folder (readdirSync H folder w) [] = Inr projectFiles"
    and "projectFiles \<noteq> []"
    and "outs = outcomes H projectFiles w"
    and "opened = opened_of outs" and "failed = failed_of outs"
  shows "open_projects_from_folder H folder recursive extensions w
           = (Inr (''Opened '' @ toString_nat (length opened) @ '' project(s) from: '' @ folder @ [newline]
                   @ (if opened = [] then []
                      else [newline] @ ''Opened files:'' @ [newline] @ bullets opened)
                   @ (if failed = [] then []
                      else [newline, newline] @ ''Errors ('' @ toString_nat (length failed) @ ''):''
                           @ [newline] @ bullets failed)),
              after_files H projectFiles w)
       \<and> open_projects_from_folder H folder recursive extensions w
           = (Inr (folder_report folder opened failed), after_files H projectFiles w)
       \<and> length outs = length projectFiles
       \<and> length opened + length failed = length projectFiles
       \<and> (\<forall>i < length projectFiles.
             outs ! i = fst (open_file H (projectFiles ! i) (after_files H (take i projectFiles) w)))
       \<and> (\<forall>i < length projectFiles. names_file (projectFiles ! i) (outs ! i))
       \<and> (\<forall>before filePath rest. projectFiles = before @ filePath # rest \<longrightarrow>
             outs = outcomes H before w @ fst (open_file H filePath (after_files H before w))
                    # outcomes H rest (snd (open_file H filePath (after_files H before w))))
       \<and> (\<forall>f \<in> set opened \<union> set failed.
             \<exists>pre post. folder_report folder opened failed = pre @ ''  - '' @ f @ post)
       \<and> (opened \<noteq> [] \<and> failed \<noteq> [] \<longrightarrow>
             folder_report folder opened failed
             = ''Opened '' @ toString_nat (length opened) @ '' project(s) from: '' @ folder
               @ [newline, newline] @ ''Opened files:'' @ [newline] @ bullets opened
               @ [newline, newline] @ ''Errors ('' @ toString_nat (length failed) @ ''):''
               @ [newline] @ bullets failed)
       \<and> (\<forall>filePath w0 e. readFileSync H filePath w0 = Inl e \<longrightarrow>
             open_file H filePath w0 = (Inl (''Error opening '' @ filePath @ '': '' @ message e), w0))
       \<and> (\<forall>filePath w0 content.
             readFileSync H filePath w0 = Inr content \<and> JSON_parse H content = None \<longrightarrow>
             open_file H filePath w0 = (Inl (''Failed to parse: '' @ filePath), w0))
       \<and> (\<forall>filePath w0 content.
             readFileSync H filePath w0 = Inr content \<and> JSON_parse H content = Some JNull \<longrightarrow>
             open_file H filePath w0
             = (Inl (''Error opening '' @ filePath @ '': '' @ message (TypeError ''meta'')), w0))
       \<and> (\<forall>filePath w0 content parsed.
             readFileSync H filePath w0 = Inr content \<and> JSON_parse H content = Some parsed
             \<and> parsed \<noteq> JNull \<and> optifine_rule_reached filePath parsed
             \<and> \<not> Codecs_has_optifine_entity H w0 \<longrightarrow>
             open_file H filePath w0 = (Inl (''OptiFine codec not available for: '' @ filePath), w0))
       \<and> (\<forall>filePath w0 content parsed codec format e w1.
             readFileSync H filePath w0 = Inr content \<and> JSON_parse H content = Some parsed
             \<and> folder_binding (Formats H w0) (Codecs_has_optifine_entity H w0) filePath parsed
                 = Inr (Some (codec, format))
             \<and> newProject H format w0 = (Inl e, w1) \<longrightarrow>
             open_file H filePath w0 = (Inl (''Error opening '' @ filePath @ '': '' @ message e), w1))
       \<and> (\<forall>filePath w0 content parsed codec format created w1 e w2.
             readFileSync H filePath w0 = Inr content \<and> JSON_parse H content = Some parsed
             \<and> folder_binding (Formats H w0) (Codecs_has_optifine_entity H w0) filePath parsed
                 = Inr (Some (codec, format))
             \<and> newProject H format w0 = (Inr created, w1)
             \<and> codec_parse H codec parsed filePath w1 = (Inl e, w2) \<longrightarrow>
             open_file H filePath w0 = (Inl (''Error opening '' @ filePath @ '': '' @ message e), w2))
       \<and> (\<forall>filePath w0 content parsed codec format created w1 u w2.
             readFileSync H filePath w0 = Inr content \<and> JSON_parse H content = Some parsed
             \<and> folder_binding (Formats H w0) (Codecs_has_optifine_entity H w0) filePath parsed
                 = Inr (Some (codec, format))
             \<and> newProject H format w0 = (Inr created, w1)
             \<and> codec_parse H codec parsed filePath w1 = (Inr u, w2) \<longrightarrow>
             open_file H filePath w0 = (Inr (basename filePath), w2))"
proof -
  have report: "open_projects_from_folder H folder recursive extensions w
           = (Inr (folder_report folder opened failed), after_files H projectFiles w)"
    using assms by (simp add: open_projects_from_folder_def open_files_outcomes)
  have wording: "open_projects_from_folder H folder recursive extensions w
           = (Inr (''Opened '' @ toString_nat (length opened) @ '' project(s) from: '' @ folder @ [newline]
                   @ (if opened = [] then []
                      else [newline] @ ''Opened files:'' @ [newline] @ bullets opened)
                   @ (if failed = [] then []
                      else [newline, newline] @ ''Errors ('' @ toString_nat (length failed) @ ''):''
                           @ [newline] @ bullets failed)),
              after_files H projectFiles w)"
    unfolding report folder_report_text ..
  have len: "length outs = length projectFiles"
    by (simp add: assms(5) length_outcomes)
  have total: "length opened + length failed = length projectFiles"
    by (simp add: assms(5-7) length_opened_failed length_outcomes)
  have each: "\<forall>i < length projectFiles.
             outs ! i = fst (open_file H (projectFiles ! i) (after_files H (take i projectFiles) w))"
    by (simp add: assms(5) outcomes_nth)
  have named: "\<forall>i < length projectFiles. names_file (projectFiles ! i) (outs ! i)"
    by (simp add: assms(5) outcomes_name_files)
  have goes_on: "\<forall>before filePath rest. projectFiles = before @ filePath # rest \<longrightarrow>
             outs = outcomes H before w @ fst (open_file H filePath (after_files H before w))
                    # outcomes H rest (snd (open_file H filePath (after_files H before w)))"
    by (simp add: assms(5) outcomes_append)
  have listed: "\<forall>f \<in> set opened \<union> set failed.
             \<exists>pre post. folder_report folder opened failed = pre @ ''  - '' @ f @ post"
    using folder_report_lists by blast
  have counted: "opened \<noteq> [] \<and> failed \<noteq> [] \<longrightarrow>
             folder_report folder opened failed
             = ''Opened '' @ toString_nat (length opened) @ '' project(s) from: '' @ folder
               @ [newline, newline] @ ''Opened files:'' @ [newline] @ bullets opened
               @ [newline, newline] @ ''Errors ('' @ toString_nat (length failed) @ ''):''
               @ [newline] @ bullets failed"
    using folder_report_counts by blast
  have c1: "\<forall>filePath w0 e. readFileSync H filePath w0 = Inl e \<longrightarrow>
             open_file H filePath w0 = (Inl (''Error opening '' @ filePath @ '': '' @ message e), w0)"
    by (simp add: open_file_read_error)
  have c2: "\<forall>filePath w0 content.
             readFileSync H filePath w0 = Inr content \<and> JSON_parse H content = None \<longrightarrow>
             open_file H filePath w0 = (Inl (''Failed to parse: '' @ filePath), w0)"
    by (simp add: open_file_invalid_json)
  have c3: "\<forall>filePath w0 content.
             readFileSync H filePath w0 = Inr content \<and> JSON_parse H content = Some JNull \<longrightarrow>
             open_file H filePath w0
             = (Inl (''Error opening '' @ filePath @ '': '' @ message (TypeError ''meta'')), w0)"
    by (intro allI impI, elim conjE) (rule open_file_null, assumption+)
  have c4: "\<forall>filePath w0 content parsed.
             readFileSync H filePath w0 = Inr content \<and> JSON_parse H content = Some parsed
             \<and> parsed \<noteq> JNull \<and> optifine_rule_reached filePath parsed
             \<and> \<not> Codecs_has_optifine_entity H w0 \<longrightarrow>
             open_file H filePath w0 = (Inl (''OptiFine codec not available for: '' @ filePath), w0)"
    by (intro allI impI, elim conjE) (rule open_file_missing_codec, assumption+)
  have c5: "\<forall>filePath w0 content parsed codec format e w1.
             readFileSync H filePath w0 = Inr content \<and> JSON_parse H content = Some parsed
             \<and> folder_binding (Formats H w0) (Codecs_has_optifine_entity H w0) filePath parsed
                 = Inr (Some (codec, format))
             \<and> newProject H format w0 = (Inl e, w1) \<longrightarrow>
             open_file H filePath w0 = (Inl (''Error opening '' @ filePath @ '': '' @ message e), w1)"
    by (intro allI impI, elim conjE) (rule open_file_newProject_error, assumption+)
  have c6: "\<forall>filePath w0 content parsed codec format created w1 e w2.
             readFileSync H filePath w0 = Inr content \<and> JSON_parse H content = Some parsed
             \<and> folder_binding (Formats H w0) (Codecs_has_optifine_entity H w0) filePath parsed
                 = Inr (Some (codec, format))
             \<and> newProject H format w0 = (Inr created, w1)
             \<and> codec_parse H codec parsed filePath w1 = (Inl e, w2) \<longrightarrow>
             open_file H filePath w0 = (Inl (''Error opening '' @ filePath @ '': '' @ message e), w2)"
    by (intro allI impI, elim conjE) (rule open_file_codec_error, assumption+)
  have c7: "\<forall>filePath w0 content parsed codec format created w1 u w2.
             readFileSync H filePath w0 = Inr content \<and> JSON_parse H content = Some parsed
             \<and> folder_binding (Formats H w0) (Codecs_has_optifine_entity H w0) filePath parsed
                 = Inr (Some (codec, format))
             \<and> newProject H format w0 = (Inr created, w1)
             \<and> codec_parse H codec parsed filePath w1 = (Inr u, w2) \<longrightarrow>
             open_file H filePath w0 = (Inr (basename filePath), w2)"
    by (intro allI impI, elim conjE) (rule open_file_opened, assumption+)
  show ?thesis
    by (intro conjI wording report len total each named goes_on listed counted c1 c2 c3 c4 c5 c6 c7)
qed

lemma path_join_sample [simp]: "path_join sample_host = slash_join"
  by (simp add: sample_host_def slash_join_def fun_eq_iff)

lemma toString_nat_small:
  "toString_nat (Suc 0) = ''1''" "toString_nat (Suc (Suc 0)) = ''2''"
  by (simp_all add: toString_nat.simps [of "Suc 0"] toString_nat.simps [of "Suc (Suc 0)"] digit_chars_def)

lemma ext_three_files:
  "toLowerCase (extname ''a.json'') = ''.json''"
  "toLowerCase (extname ''b.json'') = ''.json''"
  "toLowerCase (extname ''c.geo.json'') = ''.json''"
  "toLowerCase (extname ''models/a.json'') = ''.json''"
  "toLowerCase (extname ''models/c.geo.json'') = ''.json''"
  by (simp_all add: extname_def basename_def toLowerCase_def toLowerCase_char_def)

lemma scan_three_files:
  "scanDirectory slash_join False PROJECT_EXTENSIONS ''models''
     (Inr [File ''a.json'', File ''b.json'', File ''c.geo.json'']) []
   = Inr [''models/a.json'', ''models/b.json'', ''models/c.geo.json'']"
  by (simp add: ext_three_files PROJECT_EXTENSIONS_def slash_join_def endsWith_def)

lemma sample_newProject_files [simp]: "files (snd (sample_newProject format w)) = files w"
  by (simp add: sample_newProject_def)

lemma open_three_files:
  assumes "files w = files three_files"
  shows "open_file sample_host ''models/a.json'' w = (Inr ''a.json'', snd (sample_newProject (Some ''free'') w))"
    and "open_file sample_host ''models/b.json'' w = (Inl ''Failed to parse: models/b.json'', w)"
    and "open_file sample_host ''models/c.geo.json'' w = (Inr ''c.geo.json'', snd (sample_newProject (Some ''bedrock'') w))"
  using assms
  by (simp_all add: open_file_def sample_host_def three_files_def sample_parse_def folder_binding_def
      ext_three_files meta_model_format_def endsWith_def Formats_named_def sample_Formats_def
      basename_def sample_newProject_def)

lemma outcomes_three_files:
  "outcomes sample_host [''models/a.json'', ''models/b.json'', ''models/c.geo.json''] three_files
   = [Inr ''a.json'', Inl ''Failed to parse: models/b.json'', Inr ''c.geo.json'']"
  by (simp add: open_three_files)

lemma path_join_failing [simp]: "path_join failing_host = slash_join"
  by (simp add: failing_host_def sample_host_def)

lemma toString_nat_0_3: "toString_nat 0 = ''0''" "toString_nat (Suc (Suc (Suc 0))) = ''3''"
  by (simp_all add: toString_nat.simps [of 0] toString_nat.simps [of "Suc (Suc (Suc 0))"] digit_chars_def)

lemma ext_entity_files:
  "toLowerCase (extname ''e.jem'') = ''.jem''"
  "toLowerCase (extname ''f.geo.json'') = ''.json''"
  "toLowerCase (extname ''g.json'') = ''.json''"
  "toLowerCase (extname ''models/e.jem'') = ''.jem''"
  "toLowerCase (extname ''models/f.geo.json'') = ''.json''"
  "toLowerCase (extname ''models/g.json'') = ''.json''"
  by (simp_all add: extname_def basename_def toLowerCase_def toLowerCase_char_def)

lemma scan_entity_files:
  "scanDirectory slash_join False PROJECT_EXTENSIONS ''models''
     (Inr [File ''e.jem'', File ''f.geo.json'', File ''g.json'']) []
   = Inr [''models/e.jem'', ''models/f.geo.json'', ''models/g.json'']"
  by (simp add: ext_entity_files PROJECT_EXTENSIONS_def slash_join_def endsWith_def)

lemma open_entity_files:
  assumes "files w = files entity_files"
  shows "open_file failing_host ''models/e.jem'' w
           = (Inl ''OptiFine codec not available for: models/e.jem'', w)"
    and "open_file failing_host ''models/f.geo.json'' w
           = (Inl ''Error opening models/f.geo.json: bad geometry'', snd (sample_newProject (Some ''bedrock'') w))"
    and "open_file failing_host ''models/g.json'' w
           = (Inl (''Error opening models/g.json: Cannot read properties of null (reading ''
                   @ [quote] @ ''meta'' @ [quote] @ '')''), w)"
  using assms
  by (simp_all add: open_file_def failing_host_def sample_host_def entity_files_def sample_parse_def
      folder_binding_def ext_entity_files meta_model_format_def endsWith_def Formats_named_def
      sample_Formats_def opening_error_def sample_newProject_def)

lemma outcomes_entity_files:
  "outcomes failing_host [''models/e.jem'', ''models/f.geo.json'', ''models/g.json''] entity_files
   = [Inl ''OptiFine codec not available for: models/e.jem'',
      Inl ''Error opening models/f.geo.json: bad geometry'',
      Inl (''Error opening models/g.json: Cannot read properties of null (reading ''
           @ [quote] @ ''meta'' @ [quote] @ '')'')]"
  by (simp add: open_entity_files)

theorem open_projects_from_folder_report_witness:
  "fst (open_projects_from_folder sample_host ''models'' False None three_files)
     = Inr (''Opened 2 project(s) from: models'' @ [newline, newline]
            @ ''Opened files:'' @ [newline] @ ''  - a.json'' @ [newline] @ ''  - c.geo.json''
            @ [newline, newline] @ ''Errors (1):'' @ [newline] @ ''  - Failed to parse: models/b.json'')
   \<and> fst (open_projects_from_folder failing_host ''models'' False None entity_files)
     = Inr (''Opened 0 project(s) from: models'' @ [newline, newline, newline]
            @ ''Errors (3):'' @ [newline] @ ''  - OptiFine codec not available for: models/e.jem''
            @ [newline] @ ''  - Error opening models/f.geo.json: bad geometry''
            @ [newline] @ ''  - Error opening models/g.json: Cannot read properties of null (reading ''
            @ [quote] @ ''meta'' @ [quote] @ '')'')"
proof -
  have h1: "existsSync sample_host ''models'' three_files"
    by (simp add: sample_host_def three_files_def)
  have h2: "statSync_isDirectory sample_host ''models'' three_files = Inr True"
    by (simp add: sample_host_def three_files_def)
  have h3: "scanDirectory (path_join sample_host) False
              (case None of None \<Rightarrow> PROJECT_EXTENSIONS | Some xs \<Rightarrow> xs)
              ''models'' (readdirSync sample_host ''models'' three_files) []
            = Inr [''models/a.json'', ''models/b.json'', ''models/c.geo.json'']"
  proof -
    have "readdirSync sample_host ''models'' three_files
            = Inr [File ''a.json'', File ''b.json'', File ''c.geo.json'']"
      by (simp add: sample_host_def three_files_def)
    then show ?thesis
      by (simp only: path_join_sample option.case scan_three_files)
  qed
  have h4: "[''models/a.json'', ''models/b.json'', ''models/c.geo.json''] \<noteq> []"
    by simp
  note first = open_projects_from_folder_report [OF h1 h2 h3 h4 refl refl refl, THEN conjunct1]
  have g1: "existsSync failing_host ''models'' entity_files"
    by (simp add: failing_host_def sample_host_def entity_files_def)
  have g2: "statSync_isDirectory failing_host ''models'' entity_files = Inr True"
    by (simp add: failing_host_def sample_host_def entity_files_def)
  have g3: "scanDirectory (path_join failing_host) False
              (case None of None \<Rightarrow> PROJECT_EXTENSIONS | Some xs \<Rightarrow> xs)
              ''models'' (readdirSync failing_host ''models'' entity_files) []
            = Inr [''models/e.jem'', ''models/f.geo.json'', ''models/g.json'']"
  proof -
    have "readdirSync failing_host ''models'' entity_files
            = Inr [File ''e.jem'', File ''f.geo.json'', File ''g.json'']"
      by (simp add: failing_host_def sample_host_def entity_files_def)
    then show ?thesis
      by (simp only: path_join_failing option.case scan_entity_files)
  qed
  have g4: "[''models/e.jem'', ''models/f.geo.json'', ''models/g.json''] \<noteq> []"
    by simp
  note second = open_projects_from_folder_report [OF g1 g2 g3 g4 refl refl refl, THEN conjunct1]
  have a: "fst (open_projects_from_folder sample_host ''models'' False None three_files)
     = Inr (''Opened 2 project(s) from: models'' @ [newline, newline]
            @ ''Opened files:'' @ [newline] @ ''  - a.json'' @ [newline] @ ''  - c.geo.json''
            @ [newline, newline] @ ''Errors (1):'' @ [newline] @ ''  - Failed to parse: models/b.json'')"
    unfolding first outcomes_three_files
    by (simp add: bullets_def join_with_def toString_nat_small)
  have b: "fst (open_projects_from_folder failing_host ''models'' False None entity_files)
     = Inr (''Opened 0 project(s) from: models'' @ [newline, newline, newline]
            @ ''Errors (3):'' @ [newline] @ ''  - OptiFine codec not available for: models/e.jem''
            @ [newline] @ ''  - Error opening models/f.geo.json: bad geometry''
            @ [newline] @ ''  - Error opening models/g.json: Cannot read properties of null (reading ''
            @ [quote] @ ''meta'' @ [quote] @ '')'')"
    unfolding second outcomes_entity_files
    by (simp add: bullets_def join_with_def toString_nat_0_3)
  from a b show ?thesis
    by simp
qed

section \<open>The numbering of the listing and of \<^verbatim>\<open>switch_project\<close>\<close>

text \<open>
  C10. With projects open and \<open>N\<close> from 1 to their number, line \<open>N\<close> of the listing starts
  with the numeral of \<open>N\<close> and describes project \<open>N\<close> of \<^verbatim>\<open>ModelProject.all\<close>, and
  \<^verbatim>\<open>switch_project\<close> given that numeral selects this same project.
\<close>

theorem switch_index_matches_listing:
  assumes "ModelProject_all H w = Some projects" and "1 \<le> N" and "N \<le> length projects"
  shows "list_open_projects H w
           = ''# Open Projects ('' @ toString_nat (length projects) @ '')'' @ [newline, newline]
             @ join_with [newline] (project_lines H w projects)
       \<and> length (project_lines H w projects) = length projects
       \<and> project_lines H w projects ! (N - 1)
           = toString_nat N @ ''. ''
             @ (if is_active H w (projects ! (N - 1)) then [CHR 0xE2, CHR 0x86, CHR 0x92] @ '' '' else ''  '')
             @ or_Untitled (name (projects ! (N - 1)))
             @ '' (UUID: '' @ uuid (projects ! (N - 1)) @ '', Format: ''
             @ (case format_id (projects ! (N - 1)) of None \<Rightarrow> ''unknown'' | Some i \<Rightarrow> i) @ '')''
       \<and> switch_target projects (toString_nat N) = Some (projects ! (N - 1))
       \<and> switch_project H (toString_nat N) w
           = (case select H (projects ! (N - 1)) w of
                (Inl e, w') \<Rightarrow> (Inl e, w')
              | (Inr u, w') \<Rightarrow>
                  (Inr (''Switched to project: '' @ or_Untitled (name (projects ! (N - 1)))
                        @ '' (UUID: '' @ uuid (projects ! (N - 1)) @ '')''), w'))"
proof -
  from assms have ne: "projects \<noteq> []" by auto
  from assms have lt: "N - 1 < length projects" by arith
  have line: "project_lines H w projects ! (N - 1)
           = toString_nat N @ ''. ''
             @ (if is_active H w (projects ! (N - 1)) then [CHR 0xE2, CHR 0x86, CHR 0x92] @ '' '' else ''  '')
             @ or_Untitled (name (projects ! (N - 1)))
             @ '' (UUID: '' @ uuid (projects ! (N - 1)) @ '', Format: ''
             @ (case format_id (projects ! (N - 1)) of None \<Rightarrow> ''unknown'' | Some i \<Rightarrow> i) @ '')''"
    using lt assms(2) by (simp add: project_lines_def project_line_def)
  have tgt: "switch_target projects (toString_nat N) = Some (projects ! (N - 1))"
    using assms by (simp add: switch_target_index)
  have lst: "list_open_projects H w
           = ''# Open Projects ('' @ toString_nat (length projects) @ '')'' @ [newline, newline]
             @ join_with [newline] (project_lines H w projects)"
    using assms(1) ne by (simp add: list_open_projects_def)
  have sw: "switch_project H (toString_nat N) w
           = (case select H (projects ! (N - 1)) w of
                (Inl e, w') \<Rightarrow> (Inl e, w')
              | (Inr u, w') \<Rightarrow>
                  (Inr (''Switched to project: '' @ or_Untitled (name (projects ! (N - 1)))
                        @ '' (UUID: '' @ uuid (projects ! (N - 1)) @ '')''), w'))"
    using assms(1) ne by (simp add: switch_project_def tgt split: prod.splits sum.splits)
  have len: "length (project_lines H w projects) = length projects"
    by (simp add: project_lines_def)
  from line tgt lst sw len show ?thesis
    by blast
qed

lemma toString_nat_2: "toString_nat 2 = ''2''"
  by (simp add: toString_nat.simps [of 2] digit_chars_def)

theorem switch_index_matches_listing_witness:
  "project_lines sample_host two_tabs (tabs two_tabs) ! 1 = ''2.   Untitled (UUID: bbbb, Format: unknown)''
   \<and> switch_target (tabs two_tabs) ''2'' = Some \<lparr>obj = 11, name = [], uuid = ''bbbb'', format_id = None\<rparr>
   \<and> switch_project sample_host ''2'' two_tabs
       = (Inr ''Switched to project: Untitled (UUID: bbbb)'', two_tabs\<lparr>current := Some 11\<rparr>)"
proof -
  have h1: "ModelProject_all sample_host two_tabs = Some (tabs two_tabs)"
    by (simp add: sample_host_def)
  have h2: "(1::nat) \<le> 2"
    by simp
  have h3: "2 \<le> length (tabs two_tabs)"
    by (simp add: two_tabs_def)
  have p: "tabs two_tabs ! (2 - 1) = \<lparr>obj = 11, name = [], uuid = ''bbbb'', format_id = None\<rparr>"
    by (simp add: two_tabs_def)
  have a: "\<not> is_active sample_host two_tabs \<lparr>obj = 11, name = [], uuid = ''bbbb'', format_id = None\<rparr>"
    by (simp add: is_active_def sample_host_def two_tabs_def)
  have s: "select sample_host \<lparr>obj = 11, name = [], uuid = ''bbbb'', format_id = None\<rparr> two_tabs
             = (Inr (), two_tabs\<lparr>current := Some 11\<rparr>)"
    by (simp add: sample_host_def)
  from switch_index_matches_listing [OF h1 h2 h3] show ?thesis
    unfolding p toString_nat_2 by (simp add: a s or_Untitled_def)
qed

end
